theory Spec2Isabelle
  imports Main
begin

section \<open>Go standard library used by server.go\<close>

text \<open>
  Go strings are byte sequences; \<open>string\<close> (a list of 8-bit characters) is the same
  data. Only the library calls whose result server.go inspects are written out here;
  calls whose result is merely passed along are fields of the record \<open>deps\<close> below.
\<close>

subsection \<open>Package strings\<close>

definition HasPrefix :: "string \<Rightarrow> string \<Rightarrow> bool" where
  "HasPrefix s pre = (take (length pre) s = pre)"

text \<open>\<open>strings.Index\<close>: the offset of the first occurrence of \<open>sep\<close>, \<open>None\<close> for -1.\<close>

fun Index :: "string \<Rightarrow> string \<Rightarrow> nat option" where
  "Index [] sep = (if sep = [] then Some 0 else None)"
| "Index (c # cs) sep =
     (if HasPrefix (c # cs) sep then Some 0 else map_option Suc (Index cs sep))"

definition Contains :: "string \<Rightarrow> string \<Rightarrow> bool" where
  "Contains s sub = (Index s sub \<noteq> None)"

lemma Index_Some_nonempty: "Index s sep = Some m \<Longrightarrow> sep \<noteq> [] \<Longrightarrow> s \<noteq> []"
  by (cases s) auto

text \<open>
  \<open>strings.Split(s, sep)\<close> is \<open>genSplit(s, sep, 0, -1)\<close>: cut at every occurrence of
  \<open>sep\<close>, left to right; the rest of the string is the last element, so the result of
  a non-empty separator is never empty. An empty separator explodes the string (into
  bytes here, which is what Go does on ASCII text).
\<close>

function Split :: "string \<Rightarrow> string \<Rightarrow> string list" where
  "Split s sep =
     (if sep = [] then map (\<lambda>c. [c]) s
      else case Index s sep of
             None \<Rightarrow> [s]
           | Some m \<Rightarrow> take m s # Split (drop (m + length sep) s) sep)"
  by pat_completeness auto
termination
proof (relation "measure (\<lambda>(s, sep). length s)")
  show "wf (measure (\<lambda>(s, sep). length s))" by simp
next
  fix s sep :: string and m :: nat
  assume "sep \<noteq> []" and "Index s sep = Some m"
  then have "s \<noteq> []" by (auto dest: Index_Some_nonempty)
  with \<open>sep \<noteq> []\<close> show "((drop (m + length sep) s, sep), (s, sep)) \<in> measure (\<lambda>(s, sep). length s)"
    by (cases s) auto
qed

declare Split.simps [simp del]

subsection \<open>Package net/http: status texts and the response writer\<close>

definition StatusOK :: nat where "StatusOK = 200"
definition StatusUnauthorized :: nat where "StatusUnauthorized = 401"
definition StatusNotFound :: nat where "StatusNotFound = 404"
definition StatusMethodNotAllowed :: nat where "StatusMethodNotAllowed = 405"
definition StatusInternalServerError :: nat where "StatusInternalServerError = 500"

text \<open>\<open>http.StatusText\<close>, on the codes that occur in this program; the empty string
  for a code it does not know, as in Go.\<close>

definition StatusText :: "nat \<Rightarrow> string" where
  "StatusText code =
     (if code = 200 then ''OK''
      else if code = 401 then ''Unauthorized''
      else if code = 404 then ''Not Found''
      else if code = 405 then ''Method Not Allowed''
      else if code = 500 then ''Internal Server Error''
      else [])"

text \<open>
  The server's \<open>http.ResponseWriter\<close>: the header map, whether the status line has been
  written, the status code and the body written so far.
\<close>

record ResponseWriter =
  hdr :: "string \<rightharpoonup> string"
  wroteHeader :: bool
  status :: nat
  body :: string

definition newResponse :: ResponseWriter where
  "newResponse = \<lparr>hdr = Map.empty, wroteHeader = False, status = 0, body = []\<rparr>"

text \<open>\<open>WriteHeader\<close>: the first call fixes the status; a later call is ignored.\<close>

definition WriteHeader :: "nat \<Rightarrow> ResponseWriter \<Rightarrow> ResponseWriter" where
  "WriteHeader code w =
     (if wroteHeader w then w else w\<lparr>wroteHeader := True, status := code\<rparr>)"

text \<open>\<open>Write\<close>: writes the status line with 200 first when it has not been written.\<close>

definition Write :: "string \<Rightarrow> ResponseWriter \<Rightarrow> ResponseWriter" where
  "Write b w = (let w' = WriteHeader StatusOK w in w'\<lparr>body := body w' @ b\<rparr>)"

text \<open>\<open>fmt.Fprint(w, s)\<close> and \<open>fmt.Fprintln(w, s)\<close> on a response writer.\<close>

definition Fprint :: "string \<Rightarrow> ResponseWriter \<Rightarrow> ResponseWriter" where
  "Fprint s w = Write s w"

definition Fprintln :: "string \<Rightarrow> ResponseWriter \<Rightarrow> ResponseWriter" where
  "Fprintln s w = Write (s @ [CHR 0x0A]) w"

text \<open>\<open>http.Error(w, msg, code)\<close>: plain-text headers, the status, the message and a
  newline.\<close>

definition http_Error :: "string \<Rightarrow> nat \<Rightarrow> ResponseWriter \<Rightarrow> ResponseWriter" where
  "http_Error msg code w =
     Fprintln msg
       (WriteHeader code
          (w\<lparr>hdr := ((hdr w)(''Content-Length'' := None))
                      (''Content-Type'' \<mapsto> ''text/plain; charset=utf-8'',
                       ''X-Content-Type-Options'' \<mapsto> ''nosniff'')\<rparr>))"


section \<open>Data model of server.go\<close>

subsection \<open>The identity document and the parsed token\<close>

text \<open>\<open>jwt.StandardClaims\<close>, embedded in \<open>gcpIdentityDoc\<close>. The numeric dates are
  \<open>int64\<close> in Go; server.go never computes with them.\<close>

record StandardClaims =
  Audience :: string
  ExpiresAt :: int
  Id :: string
  IssuedAt :: int
  Issuer :: string
  NotBefore :: int
  Subject :: string

record gcpIdentityDoc = StandardClaims +
  Email :: string
  EmailVerified :: bool
  AuthorizedParty :: string

text \<open>\<open>gcpIdentityDoc{}\<close>: every field at its zero value.\<close>

definition emptyDoc :: gcpIdentityDoc where
  "emptyDoc =
     \<lparr>Audience = [], ExpiresAt = 0, Id = [], IssuedAt = 0, Issuer = [], NotBefore = 0,
      Subject = [], Email = [], EmailVerified = False, AuthorizedParty = []\<rparr>"

text \<open>A value of the token header, a \<open>map[string]interface{}\<close> decoded from JSON.\<close>

datatype hval = HString string | HNumber int | HBool bool | HNull | HArray | HObject

text \<open>The dynamic type behind the interface \<open>jwt.Claims\<close>: the identity document that
  \<open>verifyGoogleIDToken\<close> hands to the parser, or anything else.\<close>

datatype Claims = IdentityClaims gcpIdentityDoc | OtherClaims

record Token =
  Raw :: string
  TokenHeader :: "string \<rightharpoonup> hval"
  TokenClaims :: Claims
  Signature :: string
  Valid :: bool

subsection \<open>The key set\<close>

text \<open>
  A key of the \<open>jwk.Set\<close>: its key identifier and what its \<open>Materialize()\<close> returns
  (the key material, or an error). \<open>LookupKeyID\<close> returns the keys of the set whose
  identifier is the one asked for, in the order of the set.
\<close>

record 'm Key =
  KeyID :: string
  Materialize :: "string + 'm"

type_synonym 'm KeySet = "'m Key list"

definition LookupKeyID :: "'m KeySet \<Rightarrow> string \<Rightarrow> 'm Key list" where
  "LookupKeyID ks kid = filter (\<lambda>k. KeyID k = kid) ks"

subsection \<open>Requests, contexts, effects\<close>

type_synonym contextKey = string

definition contextEventKey :: contextKey where
  "contextEventKey = ''event''"

definition jwksURL :: string where
  "jwksURL = ''https://www.googleapis.com/oauth2/v3/certs''"

text \<open>A \<open>context.Context\<close>: the context the server gives a request (numbered), and
  the contexts \<open>context.WithValue\<close> derives from it.\<close>

datatype ctx = RequestContext nat | WithValue ctx contextKey gcpIdentityDoc

record Request =
  Method :: string
  Path :: string
  Header :: "string \<rightharpoonup> string list"
  Context :: ctx

text \<open>\<open>http.Header.Get\<close>: the first value of the key, the empty string when there is
  none.\<close>

definition Header_Get :: "(string \<rightharpoonup> string list) \<Rightarrow> string \<Rightarrow> string" where
  "Header_Get h key = (case h key of Some (v # vs) \<Rightarrow> v | _ \<Rightarrow> [])"

text \<open>
  What a handler does besides writing the response is kept as a trace, oldest event
  first: the lines it logs and its calls into the sync library (\<open>fs.NewFs\<close> with its
  remote path, \<open>sync.Sync\<close> with its four arguments).
\<close>

datatype 'f event =
    LogMsg string
  | NewFsCall string
  | SyncCall ctx 'f 'f bool

record 'f state =
  rw :: ResponseWriter
  trace :: "'f event list"

text \<open>A handler returns, or panics; Go's runtime panics on an index out of range
  (index, length).\<close>

datatype panic = IndexOutOfRange nat nat

datatype 'f result = Return "'f state" | Panic panic "'f state"

type_synonym 'f handler = "Request \<Rightarrow> 'f state \<Rightarrow> 'f result"

definition logf :: "string \<Rightarrow> 'f state \<Rightarrow> 'f state" where
  "logf msg s = s\<lparr>trace := trace s @ [LogMsg msg]\<rparr>"

definition called :: "'f event \<Rightarrow> 'f state \<Rightarrow> 'f state" where
  "called e s = s\<lparr>trace := trace s @ [e]\<rparr>"

definition respond :: "(ResponseWriter \<Rightarrow> ResponseWriter) \<Rightarrow> 'f state \<Rightarrow> 'f state" where
  "respond f s = s\<lparr>rw := f (rw s)\<rparr>"

subsection \<open>Package-level variables and the sync library's configuration\<close>

record 'm globals =
  jwtSet :: "'m KeySet"
  gs :: string
  s3 :: string
  awsAccessKey :: string
  awsSecretAcessKey :: string
  awsRegion :: string
  myAudience :: string

text \<open>The configuration that \<open>fs.ConfigFileSet(section, key, value)\<close> writes to.\<close>

type_synonym config = "string \<times> string \<rightharpoonup> string"

definition ConfigFileSet :: "string \<Rightarrow> string \<Rightarrow> string \<Rightarrow> config \<Rightarrow> config" where
  "ConfigFileSet section key v cfg = cfg((section, key) \<mapsto> v)"

subsection \<open>The external packages\<close>

text \<open>
  The operations of the packages server.go depends on whose results it only passes
  along or tests for an error: everything below holds for every way of filling them
  in. An error is its message.
  \<^item> \<open>TrimSpace\<close>: \<open>strings.TrimSpace\<close>;
  \<open>ParseWithClaims\<close>: \<open>jwt.ParseWithClaims(rawToken, &gcpIdentityDoc{}, keyFunc)\<close>, the
    parsed token or an error;
  \<^item> \<open>NewFs\<close>: \<open>fs.NewFs(path)\<close> under the configuration in force;
    \<open>Sync\<close>: \<open>sync.Sync(ctx, fdst, fsrc, flag)\<close>, \<open>None\<close> for a nil error;
  \<^item> \<open>FetchHTTP\<close>: \<open>jwk.FetchHTTP(url)\<close>;
    \<open>Route\<close>: the router \<open>mux.NewRouter()\<close> with the one route
    \<open>Methods(method).Path(path).HandlerFunc(h)\<close>;
    \<open>ListenAndServe\<close>: the error with which the server on an address fails to serve,
    \<open>None\<close> when it serves.
\<close>

record ('m, 'f) deps =
  TrimSpace :: "string \<Rightarrow> string"
  ParseWithClaims :: "string \<Rightarrow> (Token \<Rightarrow> string + 'm) \<Rightarrow> string + Token"
  NewFs :: "config \<Rightarrow> string \<Rightarrow> string + 'f"
  Sync :: "ctx \<Rightarrow> 'f \<Rightarrow> 'f \<Rightarrow> bool \<Rightarrow> string option"
  FetchHTTP :: "string \<Rightarrow> string + 'm KeySet"
  Route :: "string \<Rightarrow> string \<Rightarrow> 'f handler \<Rightarrow> 'f handler"
  ListenAndServe :: "string \<Rightarrow> string option"

section \<open>The functions of server.go\<close>

text \<open>\<open>getKey\<close> (lines 62-71) reads the package variable \<open>jwtSet\<close>, here its first
  argument. \<open>main\<close> assigns it before it builds the handler, so no handler sees it nil.\<close>

definition getKey :: "'m KeySet \<Rightarrow> Token \<Rightarrow> string + 'm" where
  "getKey ks token =
     (case TokenHeader token ''kid'' of
        Some (HString keyID) \<Rightarrow>
          (let key = LookupKeyID ks keyID
           in if length key = 1 then Materialize (key ! 0)
              else Inl ''unable to find key'')
      | _ \<Rightarrow> Inl ''expecting JWT header to have string kid'')"

text \<open>\<open>verifyGoogleIDToken\<close> (lines 73-84): the identity document, the error (\<open>None\<close>
  for nil) and the state with the lines logged.\<close>

definition verifyGoogleIDToken ::
  "('m, 'f) deps \<Rightarrow> 'm globals \<Rightarrow> ctx \<Rightarrow> string \<Rightarrow> string \<Rightarrow> 'f state
     \<Rightarrow> (gcpIdentityDoc \<times> string option) \<times> 'f state" where
  "verifyGoogleIDToken D g ctx aud rawToken s =
     (case ParseWithClaims D rawToken (getKey (jwtSet g)) of
        Inl err \<Rightarrow> ((emptyDoc, Some err), logf (''Error parsing JWT '' @ err) s)
      | Inr token \<Rightarrow>
          (case TokenClaims token of
             IdentityClaims claims \<Rightarrow>
               if Valid token
               then ((claims, None),
                     logf (''OIDC doc has Audience ['' @ Audience claims @ '']   Issuer [''
                           @ Issuer claims @ '']'') s)
               else ((emptyDoc, Some ''Error parsing JWT Claims''), s)
           | OtherClaims \<Rightarrow> ((emptyDoc, Some ''Error parsing JWT Claims''), s)))"

text \<open>\<open>authMiddleware\<close> (lines 86-114). The read \<open>splitToken[1]\<close> is Go's checked
  indexing: out of range, the handler panics.\<close>

definition authMiddleware :: "('m, 'f) deps \<Rightarrow> 'm globals \<Rightarrow> 'f handler \<Rightarrow> 'f handler" where
  "authMiddleware D g h = (\<lambda>r s0.
     let s = logf ''/authMiddleware called'' s0;
         authHeader = Header_Get (Header r) ''Authorization''
     in if authHeader = []
        then Return (respond (http_Error (StatusText StatusUnauthorized) StatusUnauthorized) s)
        else
          let splitToken = Split authHeader ''Bearer''
          in if length splitToken > 0
             then
               if \<not> 1 < length splitToken
               then Panic (IndexOutOfRange 1 (length splitToken)) s
               else
                 let tok = TrimSpace D (splitToken ! 1)
                 in case verifyGoogleIDToken D g (Context r) (myAudience g) tok s of
                      ((idDoc, Some err), s') \<Rightarrow>
                        Return (respond (http_Error (StatusText StatusUnauthorized)
                                           StatusUnauthorized) s')
                    | ((idDoc, None), s') \<Rightarrow>
                        let s'' = logf (''Authenticated email: '' @ Email idDoc) s';
                            ctx = WithValue (Context r) contextEventKey idDoc
                        in h (r\<lparr>Context := ctx\<rparr>) s''
             else Return (respond (http_Error (StatusText StatusUnauthorized)
                                     StatusUnauthorized) s))"

text \<open>\<open>defaulthandler\<close> (lines 116-136). The configuration is the sync library's
  package state, which \<open>fs.NewFs\<close> reads.\<close>

definition defaulthandler :: "('m, 'f) deps \<Rightarrow> 'm globals \<Rightarrow> config \<Rightarrow> 'f handler" where
  "defaulthandler D g cfg = (\<lambda>r s0.
     let s1 = called (NewFsCall (''gs:'' @ gs g)) s0
     in (case NewFs D cfg (''gs:'' @ gs g) of
          Inl err \<Rightarrow>
            Return (respond (http_Error (StatusText StatusInternalServerError)
                               StatusInternalServerError) s1)
        | Inr fsrc \<Rightarrow>
            (let s2 = called (NewFsCall (''s3:'' @ s3 g)) s1
             in (case NewFs D cfg (''s3:'' @ s3 g) of
                  Inl err \<Rightarrow>
                    Return (respond (http_Error (StatusText StatusInternalServerError)
                                       StatusInternalServerError) s2)
                | Inr fdest \<Rightarrow>
                    (let s3' = called (SyncCall (Context r) fdest fsrc False) s2
                     in (case Sync D (Context r) fdest fsrc False of
                          Some err \<Rightarrow>
                            Return (respond (http_Error (StatusText StatusInternalServerError)
                                               StatusInternalServerError) s3')
                        | None \<Rightarrow> Return (respond (Fprint ''ok'') s3')))))))"

text \<open>The package variables (lines 52-60) read from the environment, with \<open>jwtSet\<close>
  as \<open>main\<close> assigns it (line 141).\<close>

definition packageVars :: "'m KeySet \<Rightarrow> (string \<Rightarrow> string) \<Rightarrow> 'm globals" where
  "packageVars ks Getenv =
     \<lparr>jwtSet = ks,
      gs = Getenv ''GS'',
      s3 = Getenv ''S3'',
      awsAccessKey = Getenv ''AWS_ACCESS_KEY_ID'',
      awsSecretAcessKey = Getenv ''AWS_SECRET_ACCESS_ID'',
      awsRegion = Getenv ''AWS_REGION'',
      myAudience = Getenv ''AUDIENCE''\<rparr>"

text \<open>Lines 151-161 of \<open>main\<close>: the source and the destination remote, in the order of
  the calls.\<close>

definition configure :: "'m globals \<Rightarrow> config \<Rightarrow> config" where
  "configure g cfg0 =
     (ConfigFileSet ''s3'' ''bucket_acl'' ''private''
     (ConfigFileSet ''s3'' ''acl'' ''private''
     (ConfigFileSet ''s3'' ''region'' (awsRegion g)
     (ConfigFileSet ''s3'' ''secret_access_key'' (awsSecretAcessKey g)
     (ConfigFileSet ''s3'' ''access_key_id'' (awsAccessKey g)
     (ConfigFileSet ''s3'' ''env_auth'' ''false''
     (ConfigFileSet ''s3'' ''provider'' ''AWS''
     (ConfigFileSet ''s3'' ''type'' ''s3''
     (ConfigFileSet ''gs'' ''bucket_policy_only'' ''true''
     (ConfigFileSet ''gs'' ''type'' ''google cloud storage'' cfg0))))))))))"

text \<open>\<open>main\<close> (lines 138-177): the process dies in \<open>log.Fatal\<close>, or its server serves.
  \<open>cfg0\<close> is the sync library's configuration as the process finds it.\<close>

record 'f Server =
  Addr :: string
  Handler :: "'f handler"

datatype ('m, 'f) process = Fatal string | Serving "'m globals" config "'f Server"

definition newServer :: "'f handler \<Rightarrow> 'f Server" where
  "newServer h = \<lparr>Addr = '':8080'', Handler = h\<rparr>"

definition main :: "('m, 'f) deps \<Rightarrow> (string \<Rightarrow> string) \<Rightarrow> config \<Rightarrow> ('m, 'f) process" where
  "main D Getenv cfg0 =
     (case FetchHTTP D jwksURL of
        Inl err \<Rightarrow> Fatal (''Unable to load JWK Set: '' @ err)
      | Inr ks \<Rightarrow>
          let g = packageVars ks Getenv
          in if myAudience g = [] \<or> gs g = [] \<or> s3 g = []
             then Fatal (''Audience, gs, s3 values must be set'' @ [CHR 0x0A])
             else
               let cfg = configure g cfg0;
                   router = Route D ''GET'' ''/'' (defaulthandler D g cfg);
                   server = newServer (authMiddleware D g router)
               in (case ListenAndServe D (Addr server) of
                     Some err \<Rightarrow> Fatal (''ListenAndServe: '' @ err)
                   | None \<Rightarrow> Serving g cfg server))"

section \<open>What the client and the operator observe\<close>

text \<open>
  The server calls the handler with a new response writer. When the handler returns,
  the client gets the status (200 if the handler set none) and the body; when it
  panics, net/http recovers, logs the panic and closes the connection: the client
  gets no response.
\<close>

definition finishRequest :: "'f result \<Rightarrow> (nat \<times> string) option" where
  "finishRequest res =
     (case res of
        Return s \<Rightarrow> Some (if wroteHeader (rw s) then status (rw s) else StatusOK, body (rw s))
      | Panic p s \<Rightarrow> None)"

definition trace_of :: "'f result \<Rightarrow> 'f event list" where
  "trace_of res = (case res of Return s \<Rightarrow> trace s | Panic p s \<Rightarrow> trace s)"

fun isSyncCall :: "'f event \<Rightarrow> bool" where
  "isSyncCall (SyncCall c fdst fsrc flag) = True"
| "isSyncCall e = False"

definition syncCalls :: "'f event list \<Rightarrow> 'f event list" where
  "syncCalls evs = filter isSyncCall evs"

fun serving :: "('m, 'f) process \<Rightarrow> bool" where
  "serving (Serving g cfg srv) = True"
| "serving (Fatal msg) = False"

section \<open>The sync engine, as the spec describes it\<close>

text \<open>
  Modelled from the spec: the synchronization that a call of \<open>sync.Sync\<close> asks the sync
  engine for. The engine is an external package and its code is not among the sources
  of the repository. The spec (sections 4.4 and 6, glossary) describes it: a
  one-directional sync copies the objects present in the source to the destination; a
  single boolean flag controls deletion, and without deletion an object of the
  destination that is absent from the source is left where it is. A bucket maps object
  names to contents; with deletion, the destination ends up holding the source's
  objects only.
\<close>

type_synonym bucket = "string \<rightharpoonup> string"

definition engineSync :: "bool \<Rightarrow> bucket \<Rightarrow> bucket \<Rightarrow> bucket" where
  "engineSync deletion dst src = (if deletion then src else dst ++ src)"

text \<open>
  Modelled from the spec: what a traced call asks for, on the buckets behind the
  handles. Only a sync call asks for a transfer, into its destination handle.
\<close>

fun requested :: "'f event \<Rightarrow> ('f \<Rightarrow> bucket) \<Rightarrow> ('f \<Rightarrow> bucket)" where
  "requested (SyncCall c fdst fsrc flag) store =
     store(fdst := engineSync flag (store fdst) (store fsrc))"
| "requested (LogMsg m) store = store"
| "requested (NewFsCall path) store = store"

section \<open>Sample values\<close>

text \<open>
  One way of filling in the external packages, and a few requests, for running the
  functions on concrete inputs: a key set with the single key \<open>K1\<close>; a parser that
  knows one well-formed token, signed with \<open>K1\<close>, and asks the key function for its key;
  a backend constructor that refuses an empty secret key; a router that serves its one
  route and answers 405 and 404 otherwise.
\<close>

definition sampleKeys :: "string KeySet" where
  "sampleKeys = [\<lparr>KeyID = ''K1'', Materialize = Inr ''public key of K1''\<rparr>]"

definition sampleDoc :: gcpIdentityDoc where
  "sampleDoc =
     \<lparr>Audience = ''https://someone-else.example'', ExpiresAt = 2000000000, Id = [],
      IssuedAt = 1600000000, Issuer = ''https://accounts.google.com'', NotBefore = 0,
      Subject = ''1234567890'', Email = ''scheduler@example.iam.gserviceaccount.com'',
      EmailVerified = True, AuthorizedParty = []\<rparr>"

definition sampleToken :: Token where
  "sampleToken =
     \<lparr>Raw = ''good.token.K1'',
      TokenHeader = [''alg'' \<mapsto> HString ''RS256'', ''kid'' \<mapsto> HString ''K1''],
      TokenClaims = IdentityClaims sampleDoc,
      Signature = ''K1'',
      Valid = True\<rparr>"

definition sampleTrim :: "string \<Rightarrow> string" where
  "sampleTrim s =
     rev (dropWhile (\<lambda>c. c = CHR '' '') (rev (dropWhile (\<lambda>c. c = CHR '' '') s)))"

definition sampleParse :: "string \<Rightarrow> (Token \<Rightarrow> string + string) \<Rightarrow> string + Token" where
  "sampleParse raw keyFunc =
     (if raw = ''good.token.K1''
      then (case keyFunc sampleToken of Inl err \<Rightarrow> Inl err | Inr key \<Rightarrow> Inr sampleToken)
      else Inl ''token contains an invalid number of segments'')"

definition sampleNewFs :: "config \<Rightarrow> string \<Rightarrow> string + string" where
  "sampleNewFs cfg path =
     (if take 3 path = ''s3:'' \<and> cfg (''s3'', ''secret_access_key'') = Some []
      then Inl ''failed to create file system''
      else Inr path)"

definition sampleRoute :: "string \<Rightarrow> string \<Rightarrow> string handler \<Rightarrow> string handler" where
  "sampleRoute method path h = (\<lambda>r s.
     if Path r \<noteq> path then Return (respond (http_Error ''404 page not found'' StatusNotFound) s)
     else if Method r \<noteq> method then Return (respond (WriteHeader StatusMethodNotAllowed) s)
     else h r s)"

definition sampleDeps :: "(string, string) deps" where
  "sampleDeps =
     \<lparr>TrimSpace = sampleTrim,
      ParseWithClaims = sampleParse,
      NewFs = sampleNewFs,
      Sync = (\<lambda>c fdst fsrc flag. None),
      FetchHTTP = (\<lambda>url. Inr sampleKeys),
      Route = sampleRoute,
      ListenAndServe = (\<lambda>addr. None)\<rparr>"

definition sampleEnv :: "string \<Rightarrow> string" where
  "sampleEnv name =
     (if name = ''AUDIENCE'' then ''https://rsync-random-uc.a.run.app''
      else if name = ''GS'' then ''gcs-bucket-name''
      else if name = ''S3'' then ''s3-bucket-name''
      else if name = ''AWS_ACCESS_KEY_ID'' then ''your-aws-key''
      else if name = ''AWS_SECRET_ACCESS_ID'' then ''your-aws-secret''
      else if name = ''AWS_REGION'' then ''your-region''
      else [])"

definition sampleGlobals :: "string globals" where
  "sampleGlobals = packageVars sampleKeys sampleEnv"

definition sampleRequest :: "string \<Rightarrow> string \<Rightarrow> (string \<rightharpoonup> string list) \<Rightarrow> Request" where
  "sampleRequest method path h =
     \<lparr>Method = method, Path = path, Header = h, Context = RequestContext 0\<rparr>"

definition newState :: "'f state" where
  "newState = \<lparr>rw = newResponse, trace = []\<rparr>"

text \<open>A key set whose only key cannot be materialized.\<close>

definition brokenKeys :: "string KeySet" where
  "brokenKeys = [\<lparr>KeyID = ''K1'', Materialize = Inl ''key has no rsa.PublicKey associated with it''\<rparr>]"

text \<open>An environment without the destination credentials, one without the destination
  bucket, and the package variables of the first.\<close>

definition envNoCredentials :: "string \<Rightarrow> string" where
  "envNoCredentials name =
     (if name = ''AUDIENCE'' then ''https://rsync-random-uc.a.run.app''
      else if name = ''GS'' then ''gcs-bucket-name''
      else if name = ''S3'' then ''s3-bucket-name''
      else [])"

definition envNoBucket :: "string \<Rightarrow> string" where
  "envNoBucket name = (if name = ''S3'' then [] else sampleEnv name)"

definition noCredentialsGlobals :: "string globals" where
  "noCredentialsGlobals = packageVars sampleKeys envNoCredentials"

text \<open>Two buckets: the source holds a new backup, the destination an older one.\<close>

definition sampleStore :: "string \<Rightarrow> bucket" where
  "sampleStore handle =
     (if handle = ''gs:gcs-bucket-name'' then [''backup-2'' \<mapsto> ''new'']
      else if handle = ''s3:s3-bucket-name'' then [''backup-1'' \<mapsto> ''old'']
      else Map.empty)"

section \<open>Properties\<close>

subsection \<open>Auxiliary facts\<close>

lemma Split_no_sep: "Index s sep = None \<Longrightarrow> sep \<noteq> [] \<Longrightarrow> Split s sep = [s]"
  by (simp add: Split.simps)

lemma rw_logf [simp]: "rw (logf m s) = rw s"
  by (simp add: logf_def)

lemma trace_logf [simp]: "trace (logf m s) = trace s @ [LogMsg m]"
  by (simp add: logf_def)

lemma rw_called [simp]: "rw (called e s) = rw s"
  by (simp add: called_def)

lemma trace_called [simp]: "trace (called e s) = trace s @ [e]"
  by (simp add: called_def)

lemma trace_respond [simp]: "trace (respond f s) = trace s"
  by (simp add: respond_def)

lemma rw_respond [simp]: "rw (respond f s) = f (rw s)"
  by (simp add: respond_def)

lemma http_Error_new:
  "http_Error msg code newResponse =
     \<lparr>hdr = [''Content-Type'' \<mapsto> ''text/plain; charset=utf-8'',
              ''X-Content-Type-Options'' \<mapsto> ''nosniff''],
      wroteHeader = True, status = code, body = msg @ [CHR 0x0A]\<rparr>"
  by (simp add: http_Error_def Fprintln_def Write_def WriteHeader_def newResponse_def Let_def)

lemma finish_http_Error:
  "rw s = newResponse \<Longrightarrow>
   finishRequest (Return (respond (http_Error msg code) s)) = Some (code, msg @ [CHR 0x0A])"
  by (simp add: finishRequest_def http_Error_new)

lemma finish_ok:
  "rw s = newResponse \<Longrightarrow>
   finishRequest (Return (respond (Fprint ''ok'') s)) = Some (200, ''ok'')"
  by (simp add: finishRequest_def Fprint_def Write_def WriteHeader_def newResponse_def
      StatusOK_def Let_def)

subsection \<open>The Auth Gate\<close>

text \<open>
  Claim C3. A request whose \<open>Authorization\<close> header is absent (\<open>Get\<close> returns the empty
  string) is answered with 401 and the body \<open>Unauthorized\<close>; the result is the same
  state for every downstream handler \<open>h\<close>, with one log line and nothing else added to
  the trace, so the downstream handler has not run.
\<close>

theorem authMiddleware_missing_header:
  assumes "Header_Get (Header r) ''Authorization'' = []"
  shows "authMiddleware D g h r s =
           Return (respond (http_Error ''Unauthorized'' 401) (logf ''/authMiddleware called'' s))
         \<and> trace_of (authMiddleware D g h r s) = trace s @ [LogMsg ''/authMiddleware called'']
         \<and> (rw s = newResponse \<longrightarrow>
              finishRequest (authMiddleware D g h r s)
                = Some (401, ''Unauthorized'' @ [CHR 0x0A]))"
  using assms
  by (simp add: authMiddleware_def Let_def StatusText_def StatusUnauthorized_def
      finish_http_Error trace_of_def)

theorem authMiddleware_missing_header_witness:
  "authMiddleware sampleDeps sampleGlobals (defaulthandler sampleDeps sampleGlobals Map.empty)
       (sampleRequest ''GET'' ''/'' Map.empty) newState
     = Return \<lparr>rw = http_Error ''Unauthorized'' 401 newResponse,
               trace = [LogMsg ''/authMiddleware called'']\<rparr>
   \<and> finishRequest (authMiddleware sampleDeps sampleGlobals
         (defaulthandler sampleDeps sampleGlobals Map.empty)
         (sampleRequest ''GET'' ''/'' Map.empty) newState)
     = Some (401, ''Unauthorized'' @ [CHR 0x0A])"
proof -
  let ?r = "sampleRequest ''GET'' ''/'' Map.empty"
  let ?h = "defaulthandler sampleDeps sampleGlobals Map.empty"
  have h: "Header_Get (Header ?r) ''Authorization'' = []"
    by (simp add: sampleRequest_def Header_Get_def)
  have n: "rw (newState :: string state) = newResponse"
    by (simp add: newState_def)
  note t = authMiddleware_missing_header [OF h, of sampleDeps sampleGlobals ?h newState]
  show ?thesis
  proof (intro conjI)
    from t show "authMiddleware sampleDeps sampleGlobals ?h ?r newState
        = Return \<lparr>rw = http_Error ''Unauthorized'' 401 newResponse,
                  trace = [LogMsg ''/authMiddleware called'']\<rparr>"
      by (simp add: newState_def respond_def logf_def)
    from t n show "finishRequest (authMiddleware sampleDeps sampleGlobals ?h ?r newState)
        = Some (401, ''Unauthorized'' @ [CHR 0x0A])"
      by blast
  qed
qed

text \<open>
  Claim C1. A request whose \<open>Authorization\<close> header is present but does not contain
  \<open>Bearer\<close> is not answered with 401: \<open>strings.Split\<close> returns the one-element slice
  that holds the whole header, the test \<open>len(splitToken) > 0\<close> lets it through, and the
  read \<open>splitToken[1]\<close> is out of range. The handler panics, for every such header, and
  the client gets no response. The 401 of line 111 is never reached.
\<close>

theorem authMiddleware_no_bearer_panics:
  assumes "Header_Get (Header r) ''Authorization'' \<noteq> []"
      and "\<not> Contains (Header_Get (Header r) ''Authorization'') ''Bearer''"
  shows "authMiddleware D g h r s
           = Panic (IndexOutOfRange 1 1) (logf ''/authMiddleware called'' s)
         \<and> finishRequest (authMiddleware D g h r s) = None"
  using assms
  by (simp add: authMiddleware_def Let_def Contains_def Split_no_sep finishRequest_def)

theorem authMiddleware_no_bearer_panics_witness:
  "authMiddleware sampleDeps sampleGlobals (defaulthandler sampleDeps sampleGlobals Map.empty)
       (sampleRequest ''GET'' ''/'' [''Authorization'' \<mapsto> [''Basic xyz'']]) newState
     = Panic (IndexOutOfRange 1 1) \<lparr>rw = newResponse, trace = [LogMsg ''/authMiddleware called'']\<rparr>
   \<and> finishRequest (authMiddleware sampleDeps sampleGlobals
         (defaulthandler sampleDeps sampleGlobals Map.empty)
         (sampleRequest ''GET'' ''/'' [''Authorization'' \<mapsto> [''Basic xyz'']]) newState)
     = None"
proof -
  let ?r = "sampleRequest ''GET'' ''/'' [''Authorization'' \<mapsto> [''Basic xyz'']]"
  let ?h = "defaulthandler sampleDeps sampleGlobals Map.empty"
  have v: "Header_Get (Header ?r) ''Authorization'' = ''Basic xyz''"
    by (simp add: sampleRequest_def Header_Get_def)
  have h1: "Header_Get (Header ?r) ''Authorization'' \<noteq> []"
    by (simp add: v)
  have h2: "\<not> Contains (Header_Get (Header ?r) ''Authorization'') ''Bearer''"
    by (simp add: v Contains_def HasPrefix_def)
  note t = authMiddleware_no_bearer_panics [OF h1 h2, of sampleDeps sampleGlobals ?h newState]
  show ?thesis
  proof (intro conjI)
    from t show "authMiddleware sampleDeps sampleGlobals ?h ?r newState
        = Panic (IndexOutOfRange 1 1)
            \<lparr>rw = newResponse, trace = [LogMsg ''/authMiddleware called'']\<rparr>"
      by (simp add: newState_def logf_def)
    from t show "finishRequest (authMiddleware sampleDeps sampleGlobals ?h ?r newState) = None"
      by blast
  qed
qed

subsection \<open>The token verifier\<close>

lemma sample_getKey: "getKey sampleKeys sampleToken = Inr ''public key of K1''"
  by (simp add: getKey_def sampleKeys_def sampleToken_def LookupKeyID_def)

lemma sample_parse_good:
  "ParseWithClaims sampleDeps ''good.token.K1'' (getKey (jwtSet sampleGlobals)) = Inr sampleToken"
  by (simp add: sampleDeps_def sampleParse_def sampleGlobals_def packageVars_def sample_getKey)

text \<open>
  Claim C2. \<open>verifyGoogleIDToken\<close> does not use its expected-audience parameter: for
  every two audience strings, the identity document, the error and the lines logged
  are the same. In the sample, a token issued for another audience is accepted.
\<close>

theorem verifyGoogleIDToken_ignores_audience:
  "verifyGoogleIDToken D g c aud1 rawToken s = verifyGoogleIDToken D g c aud2 rawToken s"
  by (simp add: verifyGoogleIDToken_def)

theorem verifyGoogleIDToken_ignores_audience_witness:
  "fst (verifyGoogleIDToken sampleDeps sampleGlobals (RequestContext 0)
          ''https://rsync-random-uc.a.run.app'' ''good.token.K1'' (newState :: string state))
     = (sampleDoc, None)
   \<and> Audience sampleDoc = ''https://someone-else.example''"
proof -
  have "fst (verifyGoogleIDToken sampleDeps sampleGlobals (RequestContext 0) [] ''good.token.K1''
          (newState :: string state)) = (sampleDoc, None)"
    by (simp add: verifyGoogleIDToken_def sample_parse_good sampleToken_def)
  with verifyGoogleIDToken_ignores_audience [of sampleDeps sampleGlobals "RequestContext 0"
      "''https://rsync-random-uc.a.run.app''" "''good.token.K1''" newState "[]"]
  show ?thesis
    by (simp add: sampleDoc_def)
qed


lemma verify_Inl:
  "ParseWithClaims D raw (getKey (jwtSet g)) = Inl err \<Longrightarrow>
   verifyGoogleIDToken D g c aud raw s
     = ((emptyDoc, Some err), logf (''Error parsing JWT '' @ err) s)"
  by (simp add: verifyGoogleIDToken_def)

lemma verify_invalid:
  "ParseWithClaims D raw (getKey (jwtSet g)) = Inr token \<Longrightarrow>
   \<not> Valid token \<or> TokenClaims token = OtherClaims \<Longrightarrow>
   verifyGoogleIDToken D g c aud raw s = ((emptyDoc, Some ''Error parsing JWT Claims''), s)"
  by (auto simp add: verifyGoogleIDToken_def split: Claims.splits)

lemma verify_error_empty:
  "snd (fst (verifyGoogleIDToken D g c aud raw s)) = Some err \<Longrightarrow>
   fst (fst (verifyGoogleIDToken D g c aud raw s)) = emptyDoc"
  by (simp add: verifyGoogleIDToken_def split: sum.splits Claims.splits if_splits)

lemma verify_valid:
  "ParseWithClaims D raw (getKey (jwtSet g)) = Inr token \<Longrightarrow>
   Valid token \<Longrightarrow> TokenClaims token = IdentityClaims doc \<Longrightarrow>
   fst (verifyGoogleIDToken D g c aud raw s) = (doc, None)"
  by (simp add: verifyGoogleIDToken_def)

lemma verify_rw [simp]: "rw (snd (verifyGoogleIDToken D g c aud raw s)) = rw s"
  by (simp add: verifyGoogleIDToken_def split: sum.splits Claims.splits)

lemma gate_rejects:
  assumes "Header_Get (Header r) ''Authorization'' \<noteq> []"
      and "1 < length (Split (Header_Get (Header r) ''Authorization'') ''Bearer'')"
      and "raw = TrimSpace D (Split (Header_Get (Header r) ''Authorization'') ''Bearer'' ! 1)"
      and "snd (fst (verifyGoogleIDToken D g (Context r) (myAudience g) raw
                  (logf ''/authMiddleware called'' s))) = Some err"
  shows "authMiddleware D g h r s
           = Return (respond (http_Error ''Unauthorized'' 401)
               (snd (verifyGoogleIDToken D g (Context r) (myAudience g) raw
                  (logf ''/authMiddleware called'' s))))"
  using assms
  by (auto simp add: authMiddleware_def Let_def StatusText_def StatusUnauthorized_def
      split: prod.splits option.splits)

lemma gate_accepts:
  assumes "Header_Get (Header r) ''Authorization'' \<noteq> []"
      and "1 < length (Split (Header_Get (Header r) ''Authorization'') ''Bearer'')"
      and "raw = TrimSpace D (Split (Header_Get (Header r) ''Authorization'') ''Bearer'' ! 1)"
      and "verifyGoogleIDToken D g (Context r) (myAudience g) raw
             (logf ''/authMiddleware called'' s) = ((doc, None), s')"
  shows "authMiddleware D g h r s
           = h (r\<lparr>Context := WithValue (Context r) contextEventKey doc\<rparr>)
               (logf (''Authenticated email: '' @ Email doc) s')"
  using assms
  by (auto simp add: authMiddleware_def Let_def split: prod.splits option.splits)

lemma Split_bearer_garbage: "Split ''Bearer garbage'' ''Bearer'' = [[], '' garbage'']"
  by (simp add: Split.simps HasPrefix_def)

lemma Split_bearer_good: "Split ''Bearer good.token.K1'' ''Bearer'' = [[], '' good.token.K1'']"
  by (simp add: Split.simps HasPrefix_def)

lemma sampleTrim_garbage: "sampleTrim '' garbage'' = ''garbage''"
  by (simp add: sampleTrim_def)

lemma sampleTrim_good: "sampleTrim '' good.token.K1'' = ''good.token.K1''"
  by (simp add: sampleTrim_def)


lemma sample_parse_garbage:
  "ParseWithClaims sampleDeps ''garbage'' (getKey (jwtSet sampleGlobals))
     = Inl ''token contains an invalid number of segments''"
  by (simp add: sampleDeps_def sampleParse_def)

text \<open>
  Claim C4. The parser reports a token that fails parsing, signature verification or
  the time checks as an error. Whenever it does, \<open>verifyGoogleIDToken\<close> returns that
  error with the empty identity document. When the parser returns a token that is not
  marked valid, or whose claims are not an identity document, \<open>verifyGoogleIDToken\<close>
  itself returns an error, again with the empty document (line 79). Whenever it returns
  an error at all, the document is the empty one. When the parser returns a valid token
  with identity claims, the result is these claims, so its email is the token's email
  claim. In the Auth Gate, a header with a bearer part whose token the verifier rejects
  is answered with 401, whatever the downstream handler is.
\<close>

theorem verifyGoogleIDToken_all_or_nothing:
  "(\<forall>err. ParseWithClaims D raw (getKey (jwtSet g)) = Inl err \<longrightarrow>
       verifyGoogleIDToken D g c aud raw s
         = ((emptyDoc, Some err), logf (''Error parsing JWT '' @ err) s))
   \<and> (\<forall>token. ParseWithClaims D raw (getKey (jwtSet g)) = Inr token
         \<and> (\<not> Valid token \<or> TokenClaims token = OtherClaims) \<longrightarrow>
       verifyGoogleIDToken D g c aud raw s
         = ((emptyDoc, Some ''Error parsing JWT Claims''), s))
   \<and> (\<forall>err. snd (fst (verifyGoogleIDToken D g c aud raw s)) = Some err \<longrightarrow>
       fst (fst (verifyGoogleIDToken D g c aud raw s)) = emptyDoc)
   \<and> (\<forall>token doc. ParseWithClaims D raw (getKey (jwtSet g)) = Inr token
         \<and> Valid token \<and> TokenClaims token = IdentityClaims doc \<longrightarrow>
       fst (verifyGoogleIDToken D g c aud raw s) = (doc, None)
       \<and> Email (fst (fst (verifyGoogleIDToken D g c aud raw s))) = Email doc)
   \<and> (\<forall>err. Header_Get (Header r) ''Authorization'' \<noteq> []
         \<and> 1 < length (Split (Header_Get (Header r) ''Authorization'') ''Bearer'')
         \<and> raw = TrimSpace D (Split (Header_Get (Header r) ''Authorization'') ''Bearer'' ! 1)
         \<and> snd (fst (verifyGoogleIDToken D g (Context r) (myAudience g) raw
                  (logf ''/authMiddleware called'' s0))) = Some err \<longrightarrow>
       authMiddleware D g h r s0
         = Return (respond (http_Error ''Unauthorized'' 401)
             (snd (verifyGoogleIDToken D g (Context r) (myAudience g) raw
                (logf ''/authMiddleware called'' s0))))
       \<and> (rw s0 = newResponse \<longrightarrow>
            finishRequest (authMiddleware D g h r s0)
              = Some (401, ''Unauthorized'' @ [CHR 0x0A])))"
proof (intro conjI allI impI)
  fix err
  assume "ParseWithClaims D raw (getKey (jwtSet g)) = Inl err"
  then show "verifyGoogleIDToken D g c aud raw s
      = ((emptyDoc, Some err), logf (''Error parsing JWT '' @ err) s)"
    by (rule verify_Inl)
next
  fix token
  assume "ParseWithClaims D raw (getKey (jwtSet g)) = Inr token
      \<and> (\<not> Valid token \<or> TokenClaims token = OtherClaims)"
  then show "verifyGoogleIDToken D g c aud raw s
      = ((emptyDoc, Some ''Error parsing JWT Claims''), s)"
    using verify_invalid [of D raw g token c aud s] by blast
next
  fix err
  assume "snd (fst (verifyGoogleIDToken D g c aud raw s)) = Some err"
  then show "fst (fst (verifyGoogleIDToken D g c aud raw s)) = emptyDoc"
    by (rule verify_error_empty)
next
  fix token doc
  assume a: "ParseWithClaims D raw (getKey (jwtSet g)) = Inr token
      \<and> Valid token \<and> TokenClaims token = IdentityClaims doc"
  then show "fst (verifyGoogleIDToken D g c aud raw s) = (doc, None)"
    by (simp add: verify_valid)
  with a show "Email (fst (fst (verifyGoogleIDToken D g c aud raw s))) = Email doc"
    by simp
next
  fix err
  assume a: "Header_Get (Header r) ''Authorization'' \<noteq> []
      \<and> 1 < length (Split (Header_Get (Header r) ''Authorization'') ''Bearer'')
      \<and> raw = TrimSpace D (Split (Header_Get (Header r) ''Authorization'') ''Bearer'' ! 1)
      \<and> snd (fst (verifyGoogleIDToken D g (Context r) (myAudience g) raw
               (logf ''/authMiddleware called'' s0))) = Some err"
  then show g: "authMiddleware D g h r s0
      = Return (respond (http_Error ''Unauthorized'' 401)
          (snd (verifyGoogleIDToken D g (Context r) (myAudience g) raw
             (logf ''/authMiddleware called'' s0))))"
    using gate_rejects [of r raw D g s0 err h] by blast
  assume "rw s0 = newResponse"
  then show "finishRequest (authMiddleware D g h r s0)
      = Some (401, ''Unauthorized'' @ [CHR 0x0A])"
    by (simp add: g finish_http_Error)
qed

theorem verifyGoogleIDToken_all_or_nothing_witness:
  "fst (verifyGoogleIDToken sampleDeps sampleGlobals (RequestContext 0)
          ''https://rsync-random-uc.a.run.app'' ''garbage'' (newState :: string state))
     = (emptyDoc, Some ''token contains an invalid number of segments'')
   \<and> finishRequest (authMiddleware sampleDeps sampleGlobals
         (defaulthandler sampleDeps sampleGlobals Map.empty)
         (sampleRequest ''GET'' ''/'' [''Authorization'' \<mapsto> [''Bearer garbage'']]) newState)
     = Some (401, ''Unauthorized'' @ [CHR 0x0A])
   \<and> fst (verifyGoogleIDToken sampleDeps sampleGlobals (RequestContext 0)
          ''https://rsync-random-uc.a.run.app'' ''good.token.K1'' (newState :: string state))
     = (sampleDoc, None)
   \<and> Email sampleDoc = ''scheduler@example.iam.gserviceaccount.com''
   \<and> verifyGoogleIDToken
         (sampleDeps\<lparr>ParseWithClaims := \<lambda>raw keyFunc. Inr (sampleToken\<lparr>Valid := False\<rparr>)\<rparr>)
         sampleGlobals (RequestContext 0) ''https://rsync-random-uc.a.run.app''
         ''good.token.K1'' (newState :: string state)
     = ((emptyDoc, Some ''Error parsing JWT Claims''), newState)
   \<and> verifyGoogleIDToken
         (sampleDeps\<lparr>ParseWithClaims :=
            \<lambda>raw keyFunc. Inr (sampleToken\<lparr>TokenClaims := OtherClaims\<rparr>)\<rparr>)
         sampleGlobals (RequestContext 0) ''https://rsync-random-uc.a.run.app''
         ''good.token.K1'' (newState :: string state)
     = ((emptyDoc, Some ''Error parsing JWT Claims''), newState)"
proof -
  let ?r = "sampleRequest ''GET'' ''/'' [''Authorization'' \<mapsto> [''Bearer garbage'']]"
  let ?h = "defaulthandler sampleDeps sampleGlobals Map.empty"
  let ?aud = "''https://rsync-random-uc.a.run.app''"
  let ?s1 = "logf ''/authMiddleware called'' (newState :: string state)"
  let ?inv = "sampleToken\<lparr>Valid := False\<rparr>"
  let ?oth = "sampleToken\<lparr>TokenClaims := OtherClaims\<rparr>"
  let ?Dinv = "sampleDeps\<lparr>ParseWithClaims := \<lambda>raw keyFunc. Inr ?inv\<rparr>"
  let ?Doth = "sampleDeps\<lparr>ParseWithClaims := \<lambda>raw keyFunc. Inr ?oth\<rparr>"
  have v: "Header_Get (Header ?r) ''Authorization'' = ''Bearer garbage''"
    by (simp add: sampleRequest_def Header_Get_def)
  have t: "TrimSpace sampleDeps '' garbage'' = ''garbage''"
    by (simp add: sampleDeps_def sampleTrim_garbage)
  have n: "rw (newState :: string state) = newResponse"
    by (simp add: newState_def)
  note bad = verifyGoogleIDToken_all_or_nothing [of sampleDeps "''garbage''" sampleGlobals
      "RequestContext 0" ?aud newState ?r newState ?h]
  note good = verifyGoogleIDToken_all_or_nothing [of sampleDeps "''good.token.K1''" sampleGlobals
      "RequestContext 0" ?aud newState ?r newState ?h]
  note invalid = verifyGoogleIDToken_all_or_nothing [of ?Dinv "''good.token.K1''" sampleGlobals
      "RequestContext 0" ?aud newState ?r newState ?h]
  note foreign = verifyGoogleIDToken_all_or_nothing [of ?Doth "''good.token.K1''" sampleGlobals
      "RequestContext 0" ?aud newState ?r newState ?h]
  from bad sample_parse_garbage
  have "verifyGoogleIDToken sampleDeps sampleGlobals (RequestContext 0) ?aud ''garbage''
             (newState :: string state)
      = ((emptyDoc, Some ''token contains an invalid number of segments''),
         logf (''Error parsing JWT '' @ ''token contains an invalid number of segments'')
           newState)"
    by blast
  then have 1: "fst (verifyGoogleIDToken sampleDeps sampleGlobals (RequestContext 0) ?aud
             ''garbage'' (newState :: string state))
      = (emptyDoc, Some ''token contains an invalid number of segments'')"
    by simp
  have p: "Header_Get (Header ?r) ''Authorization'' \<noteq> []
      \<and> 1 < length (Split (Header_Get (Header ?r) ''Authorization'') ''Bearer'')
      \<and> ''garbage''
          = TrimSpace sampleDeps (Split (Header_Get (Header ?r) ''Authorization'') ''Bearer'' ! 1)
      \<and> snd (fst (verifyGoogleIDToken sampleDeps sampleGlobals (Context ?r)
               (myAudience sampleGlobals) ''garbage'' ?s1))
          = Some ''token contains an invalid number of segments''"
    by (simp add: v t Split_bearer_garbage verify_Inl sample_parse_garbage)
  from bad p n
  have 2: "finishRequest (authMiddleware sampleDeps sampleGlobals ?h ?r newState)
      = Some (401, ''Unauthorized'' @ [CHR 0x0A])"
    by blast
  have q: "ParseWithClaims sampleDeps ''good.token.K1'' (getKey (jwtSet sampleGlobals))
        = Inr sampleToken
      \<and> Valid sampleToken \<and> TokenClaims sampleToken = IdentityClaims sampleDoc"
    by (simp add: sample_parse_good sampleToken_def)
  from good q
  have 3: "fst (verifyGoogleIDToken sampleDeps sampleGlobals (RequestContext 0) ?aud
             ''good.token.K1'' (newState :: string state)) = (sampleDoc, None)"
    by blast
  have i: "ParseWithClaims ?Dinv ''good.token.K1'' (getKey (jwtSet sampleGlobals)) = Inr ?inv
      \<and> (\<not> Valid ?inv \<or> TokenClaims ?inv = OtherClaims)"
    by simp
  from invalid i
  have 4: "verifyGoogleIDToken ?Dinv sampleGlobals (RequestContext 0) ?aud ''good.token.K1''
             (newState :: string state)
      = ((emptyDoc, Some ''Error parsing JWT Claims''), newState)"
    by blast
  have f: "ParseWithClaims ?Doth ''good.token.K1'' (getKey (jwtSet sampleGlobals)) = Inr ?oth
      \<and> (\<not> Valid ?oth \<or> TokenClaims ?oth = OtherClaims)"
    by simp
  from foreign f
  have 5: "verifyGoogleIDToken ?Doth sampleGlobals (RequestContext 0) ?aud ''good.token.K1''
             (newState :: string state)
      = ((emptyDoc, Some ''Error parsing JWT Claims''), newState)"
    by blast
  have 6: "Email sampleDoc = ''scheduler@example.iam.gserviceaccount.com''"
    by (simp add: sampleDoc_def)
  from 1 2 3 4 5 6 show ?thesis
    by blast
qed

subsection \<open>The server\<close>

lemma sample_main:
  "main sampleDeps sampleEnv Map.empty
     = Serving sampleGlobals (configure sampleGlobals Map.empty)
         (newServer (authMiddleware sampleDeps sampleGlobals
            (sampleRoute ''GET'' ''/''
               (defaulthandler sampleDeps sampleGlobals (configure sampleGlobals Map.empty)))))"
  by (simp add: main_def Let_def sampleDeps_def sampleGlobals_def packageVars_def sampleEnv_def
      newServer_def)

text \<open>
  Claim C10. The server's handler is the auth middleware around the router, so no
  request reaches route matching before the middleware has run. But a request without
  a valid token does not always receive 401: with the header \<open>Authorization: Basic xyz\<close>,
  for every method and every path, the handler panics in the middleware and the client
  gets no response (the defect of claim C1).
\<close>

theorem server_handler_panics_without_bearer:
  assumes "main D Getenv cfg0 = Serving g cfg srv"
      and "Header_Get (Header r) ''Authorization'' = ''Basic xyz''"
  shows "Handler srv = authMiddleware D g (Route D ''GET'' ''/'' (defaulthandler D g cfg))
         \<and> Handler srv r s = Panic (IndexOutOfRange 1 1) (logf ''/authMiddleware called'' s)
         \<and> finishRequest (Handler srv r s) = None"
proof -
  from assms(1)
  have h: "Handler srv = authMiddleware D g (Route D ''GET'' ''/'' (defaulthandler D g cfg))"
    by (auto simp add: main_def Let_def newServer_def split: sum.splits if_splits option.splits)
  have "\<not> Contains ''Basic xyz'' ''Bearer''"
    by (simp add: Contains_def HasPrefix_def)
  with assms(2)
  have "authMiddleware D g (Route D ''GET'' ''/'' (defaulthandler D g cfg)) r s
      = Panic (IndexOutOfRange 1 1) (logf ''/authMiddleware called'' s)"
    by (simp add: authMiddleware_def Let_def Contains_def Split_no_sep)
  with h show ?thesis
    by (simp add: finishRequest_def)
qed

theorem server_handler_panics_without_bearer_witness:
  "finishRequest
     (authMiddleware sampleDeps sampleGlobals
        (sampleRoute ''GET'' ''/''
           (defaulthandler sampleDeps sampleGlobals (configure sampleGlobals Map.empty)))
        (sampleRequest ''POST'' ''/nowhere'' [''Authorization'' \<mapsto> [''Basic xyz'']])
        newState) = None"
proof -
  let ?r = "sampleRequest ''POST'' ''/nowhere'' [''Authorization'' \<mapsto> [''Basic xyz'']]"
  have v: "Header_Get (Header ?r) ''Authorization'' = ''Basic xyz''"
    by (simp add: sampleRequest_def Header_Get_def)
  have r: "Route sampleDeps = sampleRoute"
    by (simp add: sampleDeps_def)
  from server_handler_panics_without_bearer [OF sample_main v, of newState]
  have "finishRequest (Handler (newServer (authMiddleware sampleDeps sampleGlobals
          (sampleRoute ''GET'' ''/''
             (defaulthandler sampleDeps sampleGlobals (configure sampleGlobals Map.empty)))))
          ?r newState) = None"
    by blast
  then show ?thesis
    by (simp add: newServer_def)
qed

subsection \<open>Key lookup\<close>

lemma LookupKeyID_absent: "kid \<notin> KeyID ` set ks \<Longrightarrow> LookupKeyID ks kid = []"
  by (auto simp add: LookupKeyID_def filter_empty_conv)

lemma getKey_string_kid:
  "TokenHeader token ''kid'' = Some (HString kid) \<Longrightarrow>
   getKey ks token =
     (if length (LookupKeyID ks kid) = 1 then Materialize (LookupKeyID ks kid ! 0)
      else Inl ''unable to find key'')"
  by (simp add: getKey_def Let_def)

lemma getKey_no_string_kid:
  "(\<forall>kid. TokenHeader token ''kid'' \<noteq> Some (HString kid)) \<Longrightarrow>
   getKey ks token = Inl ''expecting JWT header to have string kid''"
  by (simp add: getKey_def split: option.splits hval.splits)

text \<open>
  Claim C5, as stated: \<open>getKey\<close> returns key material if and only if the header has a
  string \<open>kid\<close> and exactly one key of the set matches it. It fails where the one
  matching key's \<open>Materialize()\<close> returns an error, which \<open>getKey\<close> passes on.
\<close>

theorem getKey_material_counterexample:
  "\<not> ((\<exists>m. getKey brokenKeys sampleToken = Inr m)
        \<longleftrightarrow> (\<exists>kid. TokenHeader sampleToken ''kid'' = Some (HString kid)
                   \<and> length (LookupKeyID brokenKeys kid) = 1))"
proof -
  have "getKey brokenKeys sampleToken = Inl ''key has no rsa.PublicKey associated with it''"
    by (simp add: getKey_def brokenKeys_def sampleToken_def LookupKeyID_def)
  moreover have "TokenHeader sampleToken ''kid'' = Some (HString ''K1'')
      \<and> length (LookupKeyID brokenKeys ''K1'') = 1"
    by (simp add: brokenKeys_def sampleToken_def LookupKeyID_def)
  ultimately show ?thesis
    by auto
qed

text \<open>
  Claim C5, amended: \<open>getKey\<close> returns key material if and only if the header has a
  string \<open>kid\<close>, exactly one key of the set matches it and materializing that key
  succeeds; with one matching key it returns what \<open>Materialize()\<close> returns. It returns
  an error when the \<open>kid\<close> is missing or not a string, when no key matches and when
  more than one matches; in particular for a \<open>kid\<close> that no key of the set has.
\<close>

theorem getKey_material_iff:
  "((\<exists>m. getKey ks token = Inr m)
      \<longleftrightarrow> (\<exists>kid k m. TokenHeader token ''kid'' = Some (HString kid)
                 \<and> LookupKeyID ks kid = [k] \<and> Materialize k = Inr m))
   \<and> (\<forall>kid k. TokenHeader token ''kid'' = Some (HString kid) \<and> LookupKeyID ks kid = [k] \<longrightarrow>
         getKey ks token = Materialize k)
   \<and> ((\<forall>kid. TokenHeader token ''kid'' \<noteq> Some (HString kid)) \<longrightarrow>
         getKey ks token = Inl ''expecting JWT header to have string kid'')
   \<and> (\<forall>kid. TokenHeader token ''kid'' = Some (HString kid)
         \<and> length (LookupKeyID ks kid) \<noteq> 1 \<longrightarrow>
         getKey ks token = Inl ''unable to find key'')
   \<and> (\<forall>kid. TokenHeader token ''kid'' = Some (HString kid) \<and> kid \<notin> KeyID ` set ks \<longrightarrow>
         getKey ks token = Inl ''unable to find key'')"
proof (intro conjI allI impI)
  show "(\<exists>m. getKey ks token = Inr m)
      \<longleftrightarrow> (\<exists>kid k m. TokenHeader token ''kid'' = Some (HString kid)
                 \<and> LookupKeyID ks kid = [k] \<and> Materialize k = Inr m)"
  proof (cases "\<exists>kid. TokenHeader token ''kid'' = Some (HString kid)")
    case False
    then have "getKey ks token = Inl ''expecting JWT header to have string kid''"
      by (simp add: getKey_no_string_kid)
    with False show ?thesis by auto
  next
    case True
    then obtain kid where kid: "TokenHeader token ''kid'' = Some (HString kid)" by blast
    show ?thesis
    proof (cases "length (LookupKeyID ks kid) = 1")
      case True
      then obtain k where k: "LookupKeyID ks kid = [k]"
        by (cases "LookupKeyID ks kid") auto
      with kid have "getKey ks token = Materialize k"
        by (simp add: getKey_string_kid)
      with kid k show ?thesis by auto
    next
      case False
      with kid have "getKey ks token = Inl ''unable to find key''"
        by (simp add: getKey_string_kid)
      with kid False show ?thesis by auto
    qed
  qed
next
  fix kid k
  assume "TokenHeader token ''kid'' = Some (HString kid) \<and> LookupKeyID ks kid = [k]"
  then show "getKey ks token = Materialize k"
    by (simp add: getKey_string_kid)
next
  assume "\<forall>kid. TokenHeader token ''kid'' \<noteq> Some (HString kid)"
  then show "getKey ks token = Inl ''expecting JWT header to have string kid''"
    by (rule getKey_no_string_kid)
next
  fix kid
  assume "TokenHeader token ''kid'' = Some (HString kid) \<and> length (LookupKeyID ks kid) \<noteq> 1"
  then show "getKey ks token = Inl ''unable to find key''"
    by (simp add: getKey_string_kid)
next
  fix kid
  assume "TokenHeader token ''kid'' = Some (HString kid) \<and> kid \<notin> KeyID ` set ks"
  then show "getKey ks token = Inl ''unable to find key''"
    by (simp add: getKey_string_kid LookupKeyID_absent)
qed


theorem getKey_material_iff_witness:
  "getKey sampleKeys sampleToken = Inr ''public key of K1''
   \<and> getKey sampleKeys (sampleToken\<lparr>TokenHeader := [''kid'' \<mapsto> HString ''K2'']\<rparr>)
       = Inl ''unable to find key''
   \<and> getKey (sampleKeys @ sampleKeys) sampleToken = Inl ''unable to find key''
   \<and> getKey sampleKeys (sampleToken\<lparr>TokenHeader := [''kid'' \<mapsto> HNumber 1]\<rparr>)
       = Inl ''expecting JWT header to have string kid''"
proof -
  let ?k = "\<lparr>KeyID = ''K1'', Materialize = Inr ''public key of K1''\<rparr> :: string Key"
  let ?t2 = "sampleToken\<lparr>TokenHeader := [''kid'' \<mapsto> HString ''K2'']\<rparr>"
  let ?t3 = "sampleToken\<lparr>TokenHeader := [''kid'' \<mapsto> HNumber 1]\<rparr>"
  have a: "TokenHeader sampleToken ''kid'' = Some (HString ''K1'')
      \<and> LookupKeyID sampleKeys ''K1'' = [?k]"
    by (simp add: sampleToken_def sampleKeys_def LookupKeyID_def)
  have b: "TokenHeader ?t2 ''kid'' = Some (HString ''K2'') \<and> ''K2'' \<notin> KeyID ` set sampleKeys"
    by (simp add: sampleKeys_def)
  have c: "TokenHeader sampleToken ''kid'' = Some (HString ''K1'')
      \<and> length (LookupKeyID (sampleKeys @ sampleKeys) ''K1'') \<noteq> 1"
    by (simp add: sampleToken_def sampleKeys_def LookupKeyID_def)
  have d: "\<forall>kid. TokenHeader ?t3 ''kid'' \<noteq> Some (HString kid)"
    by simp
  from getKey_material_iff [of sampleKeys sampleToken] a
  have 1: "getKey sampleKeys sampleToken = Materialize ?k"
    by blast
  from getKey_material_iff [of sampleKeys ?t2] b
  have 2: "getKey sampleKeys ?t2 = Inl ''unable to find key''"
    by blast
  from getKey_material_iff [of "sampleKeys @ sampleKeys" sampleToken] c
  have 3: "getKey (sampleKeys @ sampleKeys) sampleToken = Inl ''unable to find key''"
    by blast
  from getKey_material_iff [of sampleKeys ?t3] d
  have 4: "getKey sampleKeys ?t3 = Inl ''expecting JWT header to have string kid''"
    by blast
  from 1 2 3 4 show ?thesis
    by simp
qed

subsection \<open>Startup\<close>

lemma packageVars_sel:
  "jwtSet (packageVars ks Getenv) = ks"
  "gs (packageVars ks Getenv) = Getenv ''GS''"
  "s3 (packageVars ks Getenv) = Getenv ''S3''"
  "awsAccessKey (packageVars ks Getenv) = Getenv ''AWS_ACCESS_KEY_ID''"
  "awsSecretAcessKey (packageVars ks Getenv) = Getenv ''AWS_SECRET_ACCESS_ID''"
  "awsRegion (packageVars ks Getenv) = Getenv ''AWS_REGION''"
  "myAudience (packageVars ks Getenv) = Getenv ''AUDIENCE''"
  by (simp_all add: packageVars_def)

lemma newServer_sel:
  "Addr (newServer h) = '':8080''"
  "Handler (newServer h) = h"
  by (simp_all add: newServer_def)

lemma main_cases:
  "main D Getenv cfg0 =
     (case FetchHTTP D jwksURL of
        Inl err \<Rightarrow> Fatal (''Unable to load JWK Set: '' @ err)
      | Inr ks \<Rightarrow>
          if Getenv ''AUDIENCE'' = [] \<or> Getenv ''GS'' = [] \<or> Getenv ''S3'' = []
          then Fatal (''Audience, gs, s3 values must be set'' @ [CHR 0x0A])
          else (case ListenAndServe D '':8080'' of
                  Some err \<Rightarrow> Fatal (''ListenAndServe: '' @ err)
                | None \<Rightarrow>
                    Serving (packageVars ks Getenv) (configure (packageVars ks Getenv) cfg0)
                      (newServer (authMiddleware D (packageVars ks Getenv)
                         (Route D ''GET'' ''/''
                            (defaulthandler D (packageVars ks Getenv)
                               (configure (packageVars ks Getenv) cfg0)))))))"
  by (simp add: main_def Let_def packageVars_sel newServer_sel split: sum.splits)

text \<open>
  Claim C6. The process serves exactly when the key set has been fetched, the audience,
  the source bucket and the destination bucket are all non-empty, and the server can
  listen. When the fetch fails, and when one of the three values is empty, \<open>main\<close> ends
  in \<open>log.Fatal\<close>; a serving process holds the fetched key set and three non-empty
  identifiers.
\<close>

theorem main_serving_iff:
  "(serving (main D Getenv cfg0) \<longleftrightarrow>
      (\<exists>ks. FetchHTTP D jwksURL = Inr ks) \<and> Getenv ''AUDIENCE'' \<noteq> [] \<and> Getenv ''GS'' \<noteq> []
      \<and> Getenv ''S3'' \<noteq> [] \<and> ListenAndServe D '':8080'' = None)
   \<and> (\<forall>err. FetchHTTP D jwksURL = Inl err \<longrightarrow>
         main D Getenv cfg0 = Fatal (''Unable to load JWK Set: '' @ err))
   \<and> ((\<exists>ks. FetchHTTP D jwksURL = Inr ks)
        \<and> (Getenv ''AUDIENCE'' = [] \<or> Getenv ''GS'' = [] \<or> Getenv ''S3'' = []) \<longrightarrow>
         main D Getenv cfg0 = Fatal (''Audience, gs, s3 values must be set'' @ [CHR 0x0A]))
   \<and> (\<forall>g cfg srv. main D Getenv cfg0 = Serving g cfg srv \<longrightarrow>
         FetchHTTP D jwksURL = Inr (jwtSet g) \<and> myAudience g \<noteq> [] \<and> gs g \<noteq> [] \<and> s3 g \<noteq> [])"
  by (auto simp add: main_cases packageVars_sel split: sum.splits option.splits)

theorem main_serving_iff_witness:
  "serving (main sampleDeps sampleEnv Map.empty)
   \<and> main sampleDeps envNoBucket Map.empty
       = Fatal (''Audience, gs, s3 values must be set'' @ [CHR 0x0A])
   \<and> main (sampleDeps\<lparr>FetchHTTP := \<lambda>url. Inl ''connection refused''\<rparr>) sampleEnv Map.empty
       = Fatal ''Unable to load JWK Set: connection refused''"
proof -
  let ?D = "sampleDeps\<lparr>FetchHTTP := \<lambda>url. Inl ''connection refused''\<rparr>"
  have a: "(\<exists>ks. FetchHTTP sampleDeps jwksURL = Inr ks) \<and> sampleEnv ''AUDIENCE'' \<noteq> []
      \<and> sampleEnv ''GS'' \<noteq> [] \<and> sampleEnv ''S3'' \<noteq> []
      \<and> ListenAndServe sampleDeps '':8080'' = None"
    by (simp add: sampleDeps_def sampleEnv_def)
  have b: "(\<exists>ks. FetchHTTP sampleDeps jwksURL = Inr ks)
      \<and> (envNoBucket ''AUDIENCE'' = [] \<or> envNoBucket ''GS'' = [] \<or> envNoBucket ''S3'' = [])"
    by (simp add: sampleDeps_def envNoBucket_def)
  have c: "FetchHTTP ?D jwksURL = Inl ''connection refused''"
    by simp
  from main_serving_iff [of sampleDeps sampleEnv Map.empty] a
  have 1: "serving (main sampleDeps sampleEnv Map.empty)"
    by blast
  from main_serving_iff [of sampleDeps envNoBucket Map.empty] b
  have 2: "main sampleDeps envNoBucket Map.empty
      = Fatal (''Audience, gs, s3 values must be set'' @ [CHR 0x0A])"
    by blast
  from main_serving_iff [of ?D sampleEnv Map.empty] c
  have 3: "main ?D sampleEnv Map.empty
      = Fatal (''Unable to load JWK Set: '' @ ''connection refused'')"
    by blast
  from 1 2 3 show ?thesis
    by simp
qed

text \<open>
  Claim C7, as stated: the process does not begin serving when a destination credential
  is empty. It fails: \<open>main\<close> tests the audience and the two bucket identifiers only
  (line 146), so with all three credentials empty the process serves.
\<close>

theorem main_serving_configuration_counterexample:
  "serving (main sampleDeps envNoCredentials Map.empty)
   \<and> envNoCredentials ''AWS_ACCESS_KEY_ID'' = []
   \<and> envNoCredentials ''AWS_SECRET_ACCESS_ID'' = []
   \<and> envNoCredentials ''AWS_REGION'' = []"
  by (simp add: main_cases sampleDeps_def envNoCredentials_def)


text \<open>
  Claim C7, amended: before the process serves, the audience and the source and
  destination identifiers are non-empty (the process fails fast otherwise), both remotes
  have their backend kind, and the destination's access key, secret key and region are
  the environment's values as they are, empty or not.
\<close>

theorem main_serving_configuration:
  assumes "main D Getenv cfg0 = Serving g cfg srv"
  shows "gs g = Getenv ''GS'' \<and> gs g \<noteq> [] \<and> s3 g = Getenv ''S3'' \<and> s3 g \<noteq> []
         \<and> myAudience g = Getenv ''AUDIENCE'' \<and> myAudience g \<noteq> []
         \<and> cfg (''gs'', ''type'') = Some ''google cloud storage''
         \<and> cfg (''s3'', ''type'') = Some ''s3''
         \<and> cfg (''s3'', ''access_key_id'') = Some (Getenv ''AWS_ACCESS_KEY_ID'')
         \<and> cfg (''s3'', ''secret_access_key'') = Some (Getenv ''AWS_SECRET_ACCESS_ID'')
         \<and> cfg (''s3'', ''region'') = Some (Getenv ''AWS_REGION'')"
  using assms
  by (auto simp add: main_cases packageVars_sel configure_def ConfigFileSet_def
      split: sum.splits option.splits if_splits)

theorem main_serving_configuration_witness:
  "gs sampleGlobals = ''gcs-bucket-name'' \<and> s3 sampleGlobals = ''s3-bucket-name''
   \<and> configure sampleGlobals Map.empty (''s3'', ''access_key_id'') = Some ''your-aws-key''
   \<and> configure sampleGlobals Map.empty (''s3'', ''secret_access_key'') = Some ''your-aws-secret''
   \<and> configure sampleGlobals Map.empty (''s3'', ''region'') = Some ''your-region''"
  using main_serving_configuration [OF sample_main]
  by (simp add: sampleEnv_def)

subsection \<open>The Sync Trigger Handler\<close>

lemma finish_error_500:
  "rw s = newResponse \<Longrightarrow>
   finishRequest (Return (respond (http_Error (StatusText StatusInternalServerError)
      StatusInternalServerError) s)) = Some (500, ''Internal Server Error'' @ [CHR 0x0A])"
  by (simp add: finish_http_Error StatusText_def StatusInternalServerError_def)

lemma defaulthandler_src_fails:
  "NewFs D cfg (''gs:'' @ gs g) = Inl e \<Longrightarrow>
   defaulthandler D g cfg r s
     = Return (respond (http_Error (StatusText StatusInternalServerError)
         StatusInternalServerError) (called (NewFsCall (''gs:'' @ gs g)) s))"
  by (simp add: defaulthandler_def Let_def)

lemma defaulthandler_dst_fails:
  "NewFs D cfg (''gs:'' @ gs g) = Inr fsrc \<Longrightarrow> NewFs D cfg (''s3:'' @ s3 g) = Inl e \<Longrightarrow>
   defaulthandler D g cfg r s
     = Return (respond (http_Error (StatusText StatusInternalServerError)
         StatusInternalServerError)
         (called (NewFsCall (''s3:'' @ s3 g)) (called (NewFsCall (''gs:'' @ gs g)) s)))"
  by (simp add: defaulthandler_def Let_def)

lemma defaulthandler_sync_fails:
  "NewFs D cfg (''gs:'' @ gs g) = Inr fsrc \<Longrightarrow> NewFs D cfg (''s3:'' @ s3 g) = Inr fdest \<Longrightarrow>
   Sync D (Context r) fdest fsrc False = Some e \<Longrightarrow>
   defaulthandler D g cfg r s
     = Return (respond (http_Error (StatusText StatusInternalServerError)
         StatusInternalServerError)
         (called (SyncCall (Context r) fdest fsrc False)
           (called (NewFsCall (''s3:'' @ s3 g)) (called (NewFsCall (''gs:'' @ gs g)) s))))"
  by (simp add: defaulthandler_def Let_def)

lemma defaulthandler_sync_ok:
  "NewFs D cfg (''gs:'' @ gs g) = Inr fsrc \<Longrightarrow> NewFs D cfg (''s3:'' @ s3 g) = Inr fdest \<Longrightarrow>
   Sync D (Context r) fdest fsrc False = None \<Longrightarrow>
   defaulthandler D g cfg r s
     = Return (respond (Fprint ''ok'')
         (called (SyncCall (Context r) fdest fsrc False)
           (called (NewFsCall (''s3:'' @ s3 g)) (called (NewFsCall (''gs:'' @ gs g)) s))))"
  by (simp add: defaulthandler_def Let_def)

lemma trace_of_Return [simp]: "trace_of (Return s) = trace s"
  by (simp add: trace_of_def)

lemma syncCalls_append [simp]: "syncCalls (xs @ ys) = syncCalls xs @ syncCalls ys"
  by (simp add: syncCalls_def)

lemma syncCalls_simps [simp]:
  "syncCalls [] = []"
  "syncCalls (NewFsCall p # evs) = syncCalls evs"
  "syncCalls (LogMsg m # evs) = syncCalls evs"
  "syncCalls (SyncCall c fdst fsrc flag # evs) = SyncCall c fdst fsrc flag # syncCalls evs"
  by (simp_all add: syncCalls_def)

lemma sample_NewFs_gs:
  "NewFs sampleDeps cfg (''gs:'' @ gs sampleGlobals) = Inr ''gs:gcs-bucket-name''"
  by (simp add: sampleDeps_def sampleNewFs_def sampleGlobals_def packageVars_def sampleEnv_def)

lemma sample_NewFs_s3:
  "NewFs sampleDeps (configure sampleGlobals Map.empty) (''s3:'' @ s3 sampleGlobals)
     = Inr ''s3:s3-bucket-name''"
  by (simp add: sampleDeps_def sampleNewFs_def sampleGlobals_def packageVars_def sampleEnv_def
      configure_def ConfigFileSet_def)

lemma noCredentials_NewFs_gs:
  "NewFs sampleDeps cfg (''gs:'' @ gs noCredentialsGlobals) = Inr ''gs:gcs-bucket-name''"
  by (simp add: sampleDeps_def sampleNewFs_def noCredentialsGlobals_def packageVars_def
      envNoCredentials_def)

lemma noCredentials_NewFs_s3:
  "NewFs sampleDeps (configure noCredentialsGlobals Map.empty) (''s3:'' @ s3 noCredentialsGlobals)
     = Inl ''failed to create file system''"
  by (simp add: sampleDeps_def sampleNewFs_def noCredentialsGlobals_def packageVars_def
      envNoCredentials_def configure_def ConfigFileSet_def)

text \<open>
  Claim C8. On a new response writer \<open>defaulthandler\<close> answers 500 with the status
  phrase and calls no sync when the source or the destination handle cannot be
  constructed: when the source handle fails, its one constructor call is all it has
  done; when the destination handle fails, one call of each constructor. It answers 500
  when the sync fails, and 200 with the body \<open>ok\<close> when the sync succeeds, after one
  call of each constructor and one sync call. The trace of every case is given in
  full, so no call is repeated: nothing is retried.
\<close>

theorem defaulthandler_responses:
  assumes "rw s = newResponse"
  shows
    "((\<exists>e. NewFs D cfg (''gs:'' @ gs g) = Inl e) \<or> (\<exists>e. NewFs D cfg (''s3:'' @ s3 g) = Inl e) \<longrightarrow>
        finishRequest (defaulthandler D g cfg r s)
          = Some (500, ''Internal Server Error'' @ [CHR 0x0A])
        \<and> syncCalls (trace_of (defaulthandler D g cfg r s)) = syncCalls (trace s))
     \<and> (\<forall>e. NewFs D cfg (''gs:'' @ gs g) = Inl e \<longrightarrow>
        finishRequest (defaulthandler D g cfg r s)
          = Some (500, ''Internal Server Error'' @ [CHR 0x0A])
        \<and> trace_of (defaulthandler D g cfg r s) = trace s @ [NewFsCall (''gs:'' @ gs g)])
     \<and> (\<forall>fsrc e. NewFs D cfg (''gs:'' @ gs g) = Inr fsrc
           \<and> NewFs D cfg (''s3:'' @ s3 g) = Inl e \<longrightarrow>
        finishRequest (defaulthandler D g cfg r s)
          = Some (500, ''Internal Server Error'' @ [CHR 0x0A])
        \<and> trace_of (defaulthandler D g cfg r s)
          = trace s @ [NewFsCall (''gs:'' @ gs g), NewFsCall (''s3:'' @ s3 g)])
     \<and> (\<forall>fsrc fdest e. NewFs D cfg (''gs:'' @ gs g) = Inr fsrc
           \<and> NewFs D cfg (''s3:'' @ s3 g) = Inr fdest
           \<and> Sync D (Context r) fdest fsrc False = Some e \<longrightarrow>
        finishRequest (defaulthandler D g cfg r s)
          = Some (500, ''Internal Server Error'' @ [CHR 0x0A])
        \<and> trace_of (defaulthandler D g cfg r s)
          = trace s @ [NewFsCall (''gs:'' @ gs g), NewFsCall (''s3:'' @ s3 g),
                       SyncCall (Context r) fdest fsrc False])
     \<and> (\<forall>fsrc fdest. NewFs D cfg (''gs:'' @ gs g) = Inr fsrc
           \<and> NewFs D cfg (''s3:'' @ s3 g) = Inr fdest
           \<and> Sync D (Context r) fdest fsrc False = None \<longrightarrow>
        finishRequest (defaulthandler D g cfg r s) = Some (200, ''ok'')
        \<and> trace_of (defaulthandler D g cfg r s)
          = trace s @ [NewFsCall (''gs:'' @ gs g), NewFsCall (''s3:'' @ s3 g),
                       SyncCall (Context r) fdest fsrc False])
     \<and> length (syncCalls (trace_of (defaulthandler D g cfg r s)))
          \<le> length (syncCalls (trace s)) + 1"
proof (intro conjI allI impI)
  assume f: "(\<exists>e. NewFs D cfg (''gs:'' @ gs g) = Inl e) \<or> (\<exists>e. NewFs D cfg (''s3:'' @ s3 g) = Inl e)"
  show "finishRequest (defaulthandler D g cfg r s)
      = Some (500, ''Internal Server Error'' @ [CHR 0x0A])"
    using f assms
    by (cases "NewFs D cfg (''gs:'' @ gs g)")
       (auto simp add: defaulthandler_src_fails defaulthandler_dst_fails finish_error_500)
  show "syncCalls (trace_of (defaulthandler D g cfg r s)) = syncCalls (trace s)"
    using f
    by (cases "NewFs D cfg (''gs:'' @ gs g)")
       (auto simp add: defaulthandler_src_fails defaulthandler_dst_fails)
next
  fix e
  assume a: "NewFs D cfg (''gs:'' @ gs g) = Inl e"
  then have d: "defaulthandler D g cfg r s
      = Return (respond (http_Error (StatusText StatusInternalServerError)
          StatusInternalServerError) (called (NewFsCall (''gs:'' @ gs g)) s))"
    by (rule defaulthandler_src_fails)
  from assms show "finishRequest (defaulthandler D g cfg r s)
      = Some (500, ''Internal Server Error'' @ [CHR 0x0A])"
    by (simp add: d finish_error_500)
  show "trace_of (defaulthandler D g cfg r s) = trace s @ [NewFsCall (''gs:'' @ gs g)]"
    by (simp add: d)
next
  fix fsrc e
  assume a: "NewFs D cfg (''gs:'' @ gs g) = Inr fsrc \<and> NewFs D cfg (''s3:'' @ s3 g) = Inl e"
  then have d: "defaulthandler D g cfg r s
      = Return (respond (http_Error (StatusText StatusInternalServerError)
          StatusInternalServerError)
          (called (NewFsCall (''s3:'' @ s3 g)) (called (NewFsCall (''gs:'' @ gs g)) s)))"
    by (simp add: defaulthandler_dst_fails)
  from assms show "finishRequest (defaulthandler D g cfg r s)
      = Some (500, ''Internal Server Error'' @ [CHR 0x0A])"
    by (simp add: d finish_error_500)
  show "trace_of (defaulthandler D g cfg r s)
      = trace s @ [NewFsCall (''gs:'' @ gs g), NewFsCall (''s3:'' @ s3 g)]"
    by (simp add: d)
next
  fix fsrc fdest e
  assume a: "NewFs D cfg (''gs:'' @ gs g) = Inr fsrc \<and> NewFs D cfg (''s3:'' @ s3 g) = Inr fdest
      \<and> Sync D (Context r) fdest fsrc False = Some e"
  then have d: "defaulthandler D g cfg r s
      = Return (respond (http_Error (StatusText StatusInternalServerError)
          StatusInternalServerError)
          (called (SyncCall (Context r) fdest fsrc False)
            (called (NewFsCall (''s3:'' @ s3 g)) (called (NewFsCall (''gs:'' @ gs g)) s))))"
    by (simp add: defaulthandler_sync_fails)
  from assms show "finishRequest (defaulthandler D g cfg r s)
      = Some (500, ''Internal Server Error'' @ [CHR 0x0A])"
    by (simp add: d finish_error_500)
  show "trace_of (defaulthandler D g cfg r s)
      = trace s @ [NewFsCall (''gs:'' @ gs g), NewFsCall (''s3:'' @ s3 g),
                   SyncCall (Context r) fdest fsrc False]"
    by (simp add: d)
next
  fix fsrc fdest
  assume a: "NewFs D cfg (''gs:'' @ gs g) = Inr fsrc \<and> NewFs D cfg (''s3:'' @ s3 g) = Inr fdest
      \<and> Sync D (Context r) fdest fsrc False = None"
  then have d: "defaulthandler D g cfg r s
      = Return (respond (Fprint ''ok'')
          (called (SyncCall (Context r) fdest fsrc False)
            (called (NewFsCall (''s3:'' @ s3 g)) (called (NewFsCall (''gs:'' @ gs g)) s))))"
    by (simp add: defaulthandler_sync_ok)
  from assms show "finishRequest (defaulthandler D g cfg r s) = Some (200, ''ok'')"
    by (simp add: d finish_ok)
  show "trace_of (defaulthandler D g cfg r s)
      = trace s @ [NewFsCall (''gs:'' @ gs g), NewFsCall (''s3:'' @ s3 g),
                   SyncCall (Context r) fdest fsrc False]"
    by (simp add: d)
next
  show "length (syncCalls (trace_of (defaulthandler D g cfg r s)))
      \<le> length (syncCalls (trace s)) + 1"
    by (simp add: defaulthandler_def Let_def split: sum.splits option.splits)
qed

theorem defaulthandler_responses_witness:
  "finishRequest (defaulthandler sampleDeps sampleGlobals (configure sampleGlobals Map.empty)
       (sampleRequest ''GET'' ''/'' Map.empty) newState) = Some (200, ''ok'')
   \<and> finishRequest (defaulthandler sampleDeps noCredentialsGlobals
         (configure noCredentialsGlobals Map.empty)
         (sampleRequest ''GET'' ''/'' Map.empty) newState)
       = Some (500, ''Internal Server Error'' @ [CHR 0x0A])
   \<and> finishRequest (defaulthandler (sampleDeps\<lparr>Sync := \<lambda>c fdst fsrc flag. Some ''transfer failed''\<rparr>)
         sampleGlobals (configure sampleGlobals Map.empty)
         (sampleRequest ''GET'' ''/'' Map.empty) newState)
       = Some (500, ''Internal Server Error'' @ [CHR 0x0A])
   \<and> trace_of (defaulthandler sampleDeps noCredentialsGlobals
         (configure noCredentialsGlobals Map.empty)
         (sampleRequest ''GET'' ''/'' Map.empty) newState)
       = [NewFsCall ''gs:gcs-bucket-name'', NewFsCall ''s3:s3-bucket-name'']
   \<and> trace_of (defaulthandler (sampleDeps\<lparr>NewFs := \<lambda>cfg path. Inl ''no such remote''\<rparr>)
         sampleGlobals (configure sampleGlobals Map.empty)
         (sampleRequest ''GET'' ''/'' Map.empty) newState)
       = [NewFsCall ''gs:gcs-bucket-name'']"
proof -
  let ?r = "sampleRequest ''GET'' ''/'' Map.empty"
  let ?cfg = "configure sampleGlobals Map.empty"
  let ?cfg' = "configure noCredentialsGlobals Map.empty"
  let ?D = "sampleDeps\<lparr>Sync := \<lambda>c fdst fsrc flag. Some ''transfer failed''\<rparr>"
  let ?N = "sampleDeps\<lparr>NewFs := \<lambda>cfg path. Inl ''no such remote''\<rparr>"
  have gsn: "gs sampleGlobals = ''gcs-bucket-name'' \<and> gs noCredentialsGlobals = ''gcs-bucket-name''
      \<and> s3 noCredentialsGlobals = ''s3-bucket-name''"
    by (simp add: sampleGlobals_def noCredentialsGlobals_def packageVars_def sampleEnv_def
        envNoCredentials_def)
  have e: "trace (newState :: string state) = []"
    by (simp add: newState_def)
  have b': "NewFs sampleDeps ?cfg' (''gs:'' @ gs noCredentialsGlobals) = Inr ''gs:gcs-bucket-name''
      \<and> NewFs sampleDeps ?cfg' (''s3:'' @ s3 noCredentialsGlobals)
          = Inl ''failed to create file system''"
    using noCredentials_NewFs_gs [of ?cfg'] noCredentials_NewFs_s3 by blast
  have s: "NewFs ?N ?cfg (''gs:'' @ gs sampleGlobals) = Inl ''no such remote''"
    by simp
  have n: "rw (newState :: string state) = newResponse"
    by (simp add: newState_def)
  have a: "NewFs sampleDeps ?cfg (''gs:'' @ gs sampleGlobals) = Inr ''gs:gcs-bucket-name''
      \<and> NewFs sampleDeps ?cfg (''s3:'' @ s3 sampleGlobals) = Inr ''s3:s3-bucket-name''
      \<and> Sync sampleDeps (Context ?r) ''s3:s3-bucket-name'' ''gs:gcs-bucket-name'' False = None"
    using sample_NewFs_gs [of ?cfg] sample_NewFs_s3 by (simp add: sampleDeps_def)
  have b: "(\<exists>e. NewFs sampleDeps ?cfg' (''gs:'' @ gs noCredentialsGlobals) = Inl e)
      \<or> (\<exists>e. NewFs sampleDeps ?cfg' (''s3:'' @ s3 noCredentialsGlobals) = Inl e)"
    using noCredentials_NewFs_s3 by blast
  have c: "NewFs ?D ?cfg (''gs:'' @ gs sampleGlobals) = Inr ''gs:gcs-bucket-name''
      \<and> NewFs ?D ?cfg (''s3:'' @ s3 sampleGlobals) = Inr ''s3:s3-bucket-name''
      \<and> Sync ?D (Context ?r) ''s3:s3-bucket-name'' ''gs:gcs-bucket-name'' False
          = Some ''transfer failed''"
    using sample_NewFs_gs [of ?cfg] sample_NewFs_s3 by simp
  from defaulthandler_responses [OF n, of sampleDeps ?cfg sampleGlobals ?r] a
  have 1: "finishRequest (defaulthandler sampleDeps sampleGlobals ?cfg ?r newState)
      = Some (200, ''ok'')"
    by blast
  from defaulthandler_responses [OF n, of sampleDeps ?cfg' noCredentialsGlobals ?r] b
  have 2: "finishRequest (defaulthandler sampleDeps noCredentialsGlobals ?cfg' ?r newState)
      = Some (500, ''Internal Server Error'' @ [CHR 0x0A])"
    by blast
  from defaulthandler_responses [OF n, of ?D ?cfg sampleGlobals ?r] c
  have 3: "finishRequest (defaulthandler ?D sampleGlobals ?cfg ?r newState)
      = Some (500, ''Internal Server Error'' @ [CHR 0x0A])"
    by blast
  from defaulthandler_responses [OF n, of sampleDeps ?cfg' noCredentialsGlobals ?r] b'
  have "trace_of (defaulthandler sampleDeps noCredentialsGlobals ?cfg' ?r newState)
      = trace (newState :: string state)
        @ [NewFsCall (''gs:'' @ gs noCredentialsGlobals),
           NewFsCall (''s3:'' @ s3 noCredentialsGlobals)]"
    by blast
  with gsn e
  have 4: "trace_of (defaulthandler sampleDeps noCredentialsGlobals ?cfg' ?r newState)
      = [NewFsCall ''gs:gcs-bucket-name'', NewFsCall ''s3:s3-bucket-name'']"
    by simp
  from defaulthandler_responses [OF n, of ?N ?cfg sampleGlobals ?r] s
  have "trace_of (defaulthandler ?N sampleGlobals ?cfg ?r newState)
      = trace (newState :: string state) @ [NewFsCall (''gs:'' @ gs sampleGlobals)]"
    by blast
  with gsn e
  have 5: "trace_of (defaulthandler ?N sampleGlobals ?cfg ?r newState)
      = [NewFsCall ''gs:gcs-bucket-name'']"
    by simp
  from 1 2 3 4 5 show ?thesis
    by blast
qed

text \<open>
  Claim C9, as stated: every invocation requests exactly one synchronization. It fails
  where a backend handle cannot be constructed: the handler returns before the sync
  call.
\<close>

theorem defaulthandler_one_sync_counterexample:
  "syncCalls (trace_of (defaulthandler sampleDeps noCredentialsGlobals
       (configure noCredentialsGlobals Map.empty)
       (sampleRequest ''GET'' ''/'' Map.empty) newState)) = []
   \<and> length (syncCalls (trace_of (defaulthandler sampleDeps noCredentialsGlobals
       (configure noCredentialsGlobals Map.empty)
       (sampleRequest ''GET'' ''/'' Map.empty) newState))) \<noteq> 1"
  by (simp add: defaulthandler_dst_fails [OF noCredentials_NewFs_gs noCredentials_NewFs_s3]
      newState_def)

lemma engineSync_keeps:
  "src name = None \<Longrightarrow> engineSync False dst src name = dst name"
  by (simp add: engineSync_def map_add_def)

lemma engineSync_copies:
  "src name = Some v \<Longrightarrow> engineSync flag dst src name = Some v"
  by (simp add: engineSync_def map_add_def)

text \<open>
  Claim C9, amended: when both handles are constructed, the handler makes exactly one
  sync call, with the request's context, the handle of \<open>s3:\<close> followed by the
  destination bucket as the sync's destination, the handle of \<open>gs:\<close> followed by the
  source bucket as its source, and the flag \<open>false\<close>. By the engine of the spec, what
  this call asks for is one-directional and without deletion: every object of the
  source is copied to the destination, every object of the destination that is absent
  from the source stays as it is, and the source is not written to. When a handle
  cannot be constructed the handler makes no sync call.
\<close>

theorem defaulthandler_one_sync:
  "(\<forall>fsrc fdest. NewFs D cfg (''gs:'' @ gs g) = Inr fsrc
       \<and> NewFs D cfg (''s3:'' @ s3 g) = Inr fdest \<longrightarrow>
      syncCalls (trace_of (defaulthandler D g cfg r s))
        = syncCalls (trace s) @ [SyncCall (Context r) fdest fsrc False]
      \<and> (\<forall>store name.
            (store fsrc name = None \<longrightarrow>
               requested (last (syncCalls (trace_of (defaulthandler D g cfg r s)))) store
                 fdest name = store fdest name)
          \<and> (\<forall>v. store fsrc name = Some v \<longrightarrow>
               requested (last (syncCalls (trace_of (defaulthandler D g cfg r s)))) store
                 fdest name = Some v)
          \<and> (fdest \<noteq> fsrc \<longrightarrow>
               requested (last (syncCalls (trace_of (defaulthandler D g cfg r s)))) store
                 fsrc = store fsrc)))
   \<and> ((\<exists>e. NewFs D cfg (''gs:'' @ gs g) = Inl e) \<or> (\<exists>e. NewFs D cfg (''s3:'' @ s3 g) = Inl e) \<longrightarrow>
      syncCalls (trace_of (defaulthandler D g cfg r s)) = syncCalls (trace s))"
proof (intro conjI allI impI)
  fix fsrc fdest
  assume a: "NewFs D cfg (''gs:'' @ gs g) = Inr fsrc \<and> NewFs D cfg (''s3:'' @ s3 g) = Inr fdest"
  then show c: "syncCalls (trace_of (defaulthandler D g cfg r s))
      = syncCalls (trace s) @ [SyncCall (Context r) fdest fsrc False]"
    by (auto simp add: defaulthandler_def Let_def split: sum.splits option.splits)
  then have l: "last (syncCalls (trace_of (defaulthandler D g cfg r s)))
      = SyncCall (Context r) fdest fsrc False"
    by simp
  fix store name
  show "requested (last (syncCalls (trace_of (defaulthandler D g cfg r s)))) store fdest name
      = store fdest name" if "store fsrc name = None"
    using that by (simp add: l engineSync_keeps)
  show "requested (last (syncCalls (trace_of (defaulthandler D g cfg r s)))) store fdest name
      = Some v" if "store fsrc name = Some v" for v
    using that by (simp add: l engineSync_copies)
  show "requested (last (syncCalls (trace_of (defaulthandler D g cfg r s)))) store fsrc
      = store fsrc" if "fdest \<noteq> fsrc"
    using that by (simp add: l)
next
  assume "(\<exists>e. NewFs D cfg (''gs:'' @ gs g) = Inl e) \<or> (\<exists>e. NewFs D cfg (''s3:'' @ s3 g) = Inl e)"
  then show "syncCalls (trace_of (defaulthandler D g cfg r s)) = syncCalls (trace s)"
    by (auto simp add: defaulthandler_def Let_def split: sum.splits option.splits)
qed

theorem defaulthandler_one_sync_witness:
  "syncCalls (trace_of (defaulthandler sampleDeps sampleGlobals (configure sampleGlobals Map.empty)
       (sampleRequest ''GET'' ''/'' Map.empty) newState))
     = [SyncCall (RequestContext 0) ''s3:s3-bucket-name'' ''gs:gcs-bucket-name'' False]
   \<and> syncCalls (trace (newState :: string state)) = []
   \<and> requested (last (syncCalls (trace_of (defaulthandler sampleDeps sampleGlobals
         (configure sampleGlobals Map.empty) (sampleRequest ''GET'' ''/'' Map.empty) newState))))
         sampleStore ''s3:s3-bucket-name'' ''backup-1'' = Some ''old''
   \<and> requested (last (syncCalls (trace_of (defaulthandler sampleDeps sampleGlobals
         (configure sampleGlobals Map.empty) (sampleRequest ''GET'' ''/'' Map.empty) newState))))
         sampleStore ''s3:s3-bucket-name'' ''backup-2'' = Some ''new''
   \<and> requested (SyncCall (RequestContext 0) ''s3:s3-bucket-name'' ''gs:gcs-bucket-name'' True)
         sampleStore ''s3:s3-bucket-name'' ''backup-1'' = None"
proof -
  let ?r = "sampleRequest ''GET'' ''/'' Map.empty"
  let ?cfg = "configure sampleGlobals Map.empty"
  let ?res = "defaulthandler sampleDeps sampleGlobals ?cfg ?r newState"
  have a: "NewFs sampleDeps ?cfg (''gs:'' @ gs sampleGlobals) = Inr ''gs:gcs-bucket-name''
      \<and> NewFs sampleDeps ?cfg (''s3:'' @ s3 sampleGlobals) = Inr ''s3:s3-bucket-name''"
    using sample_NewFs_gs [of ?cfg] sample_NewFs_s3 by blast
  have e: "syncCalls (trace (newState :: string state)) = []"
    by (simp add: newState_def)
  have c: "Context ?r = RequestContext 0"
    by (simp add: sampleRequest_def)
  have absent: "sampleStore ''gs:gcs-bucket-name'' ''backup-1'' = None"
    by (simp add: sampleStore_def)
  have present: "sampleStore ''gs:gcs-bucket-name'' ''backup-2'' = Some ''new''"
    by (simp add: sampleStore_def)
  have old: "sampleStore ''s3:s3-bucket-name'' ''backup-1'' = Some ''old''"
    by (simp add: sampleStore_def)
  note t = defaulthandler_one_sync [of sampleDeps ?cfg sampleGlobals ?r newState]
  from t a
  have "syncCalls (trace_of ?res)
      = syncCalls (trace (newState :: string state))
        @ [SyncCall (Context ?r) ''s3:s3-bucket-name'' ''gs:gcs-bucket-name'' False]"
    by blast
  with e c
  have 1: "syncCalls (trace_of ?res)
      = [SyncCall (RequestContext 0) ''s3:s3-bucket-name'' ''gs:gcs-bucket-name'' False]"
    by simp
  from t a absent
  have "requested (last (syncCalls (trace_of ?res))) sampleStore ''s3:s3-bucket-name''
      ''backup-1'' = sampleStore ''s3:s3-bucket-name'' ''backup-1''"
    by blast
  with old
  have 2: "requested (last (syncCalls (trace_of ?res))) sampleStore ''s3:s3-bucket-name''
      ''backup-1'' = Some ''old''"
    by simp
  from t a present
  have 3: "requested (last (syncCalls (trace_of ?res))) sampleStore ''s3:s3-bucket-name''
      ''backup-2'' = Some ''new''"
    by blast
  have 4: "requested (SyncCall (RequestContext 0) ''s3:s3-bucket-name'' ''gs:gcs-bucket-name''
      True) sampleStore ''s3:s3-bucket-name'' ''backup-1'' = None"
    by (simp add: engineSync_def sampleStore_def)
  from 1 e 2 3 4 show ?thesis
    by blast
qed

subsection \<open>A request that passes the gate\<close>

text \<open>
  The whole path on the sample values: a \<open>GET /\<close> with a bearer token that verifies is
  forwarded with the identity document in its context, both handles are constructed,
  the sync succeeds and the client gets 200 with the body \<open>ok\<close>.
\<close>

lemma sample_request_accepted:
  "finishRequest
     (authMiddleware sampleDeps sampleGlobals
        (sampleRoute ''GET'' ''/''
           (defaulthandler sampleDeps sampleGlobals (configure sampleGlobals Map.empty)))
        (sampleRequest ''GET'' ''/'' [''Authorization'' \<mapsto> [''Bearer good.token.K1'']])
        newState) = Some (200, ''ok'')"
proof -
  let ?r = "sampleRequest ''GET'' ''/'' [''Authorization'' \<mapsto> [''Bearer good.token.K1'']]"
  let ?cfg = "configure sampleGlobals Map.empty"
  let ?h = "sampleRoute ''GET'' ''/'' (defaulthandler sampleDeps sampleGlobals ?cfg)"
  let ?s1 = "logf ''/authMiddleware called'' (newState :: string state)"
  let ?s2 = "logf (''OIDC doc has Audience ['' @ Audience sampleDoc @ '']   Issuer [''
                     @ Issuer sampleDoc @ '']'') ?s1"
  let ?s3 = "logf (''Authenticated email: '' @ Email sampleDoc) ?s2"
  let ?r' = "?r\<lparr>Context := WithValue (Context ?r) contextEventKey sampleDoc\<rparr>"
  have v: "Header_Get (Header ?r) ''Authorization'' = ''Bearer good.token.K1''"
    by (simp add: sampleRequest_def Header_Get_def)
  have "verifyGoogleIDToken sampleDeps sampleGlobals (Context ?r) (myAudience sampleGlobals)
          ''good.token.K1'' ?s1 = ((sampleDoc, None), ?s2)"
    by (simp add: verifyGoogleIDToken_def sample_parse_good sampleToken_def)
  then have a: "authMiddleware sampleDeps sampleGlobals ?h ?r newState = ?h ?r' ?s3"
    by (intro gate_accepts)
       (simp_all add: v Split_bearer_good sampleDeps_def sampleTrim_good)
  have b: "?h ?r' ?s3 = defaulthandler sampleDeps sampleGlobals ?cfg ?r' ?s3"
    by (simp add: sampleRoute_def sampleRequest_def)
  have "Sync sampleDeps (Context ?r') ''s3:s3-bucket-name'' ''gs:gcs-bucket-name'' False = None"
    by (simp add: sampleDeps_def)
  then have c: "defaulthandler sampleDeps sampleGlobals ?cfg ?r' ?s3
      = Return (respond (Fprint ''ok'')
          (called (SyncCall (Context ?r') ''s3:s3-bucket-name'' ''gs:gcs-bucket-name'' False)
            (called (NewFsCall (''s3:'' @ s3 sampleGlobals))
              (called (NewFsCall (''gs:'' @ gs sampleGlobals)) ?s3))))"
    by (intro defaulthandler_sync_ok sample_NewFs_gs sample_NewFs_s3)
  show ?thesis
    unfolding a b c by (rule finish_ok) (simp add: newState_def)
qed


end
